theory Spec2Isabelle
  imports Main "HOL-Library.Word" "HOL-Library.Char_ord" "HOL-Library.List_Lexorder"
begin

section \<open>Go values: errors, pointers, slices, fixed-size arrays\<close>

text \<open>
  The package \<open>cmc\<close> (file \<open>cmc.go\<close>) is a client of the CoinMarketCap JSON API and
  web site. Every operation returns a Go pair \<open>(result, error)\<close>; the model returns the same
  pair, so that "a nil result next to an error" is a statement about the code and not about
  the type. A pointer \<open>*T\<close> is \<open>T option\<close> (\<open>None\<close> is the nil pointer), a slice \<open>[]T\<close> is
  \<open>T list option\<close> (\<open>None\<close> is the nil slice, \<open>Some []\<close> the empty non-nil slice).

  The errors of the libraries the package calls are values of one datatype:
  \<^item> \<open>LibError m\<close>: an error of \<open>net/http\<close> (request construction, transport), of the JSON
    scanner (syntax, read failure) or of the HTML reader, with an opaque message;
  \<^item> \<open>JSONUnmarshalError\<close>: \<open>encoding/json\<close> could not store a JSON value into the Go target
    (\<open>UnmarshalTypeError\<close>, or an invalid use of the \<open>,string\<close> tag option);
  \<^item> \<open>GoqCannotUnmarshal\<close>: \<open>goq\<close>'s \<open>CannotUnmarshalError\<close>;
  \<^item> \<open>UnexpectedTicker\<close>: \<open>errors.New("unexpected error retreiving ticker")\<close> of \<open>Ticker\<close>.
\<close>

datatype error =
    LibError string
  | JSONUnmarshalError
  | GoqCannotUnmarshal
  | UnexpectedTicker

type_synonym 'a ptr = "'a option"
type_synonym 'a slice = "'a list option"

text \<open>Go's \<open>len\<close> on a slice: the nil slice has length 0.\<close>

fun len :: "'a slice \<Rightarrow> nat" where
  "len None = 0"
| "len (Some xs) = length xs"

text \<open>Go's \<open>int\<close> on a 64-bit platform.\<close>

type_synonym go_int = "64 word"

text \<open>
  The fixed-size arrays \<open>[2]string\<close>, \<open>[3]string\<close> and \<open>[6]string\<close> of the scraping structs,
  with one selector per constant index the code reads (\<open>p.Vals[0]\<close> is \<open>at6_0 (Vals p)\<close>).
  \<open>array6_of\<close> builds an array from a list of exactly six elements.
\<close>

datatype array2 = Array2 (at2_0: string) (at2_1: string)
datatype array3 = Array3 (at3_0: string) (at3_1: string) (at3_2: string)
datatype array6 = Array6 (at6_0: string) (at6_1: string) (at6_2: string)
  (at6_3: string) (at6_4: string) (at6_5: string)

fun array2_of :: "string list \<Rightarrow> array2 option" where
  "array2_of [a, b] = Some (Array2 a b)"
| "array2_of _ = None"

fun array3_of :: "string list \<Rightarrow> array3 option" where
  "array3_of [a, b, c] = Some (Array3 a b c)"
| "array3_of _ = None"

fun array6_of :: "string list \<Rightarrow> array6 option" where
  "array6_of [a, b, c, d, e, f] = Some (Array6 a b c d e f)"
| "array6_of _ = None"

text \<open>Running a fallible function over a list, stopping at the first error.\<close>

fun mapE :: "('a \<Rightarrow> error + 'b) \<Rightarrow> 'a list \<Rightarrow> error + 'b list" where
  "mapE f [] = Inr []"
| "mapE f (x # xs) =
     (case f x of
        Inl e \<Rightarrow> Inl e
      | Inr y \<Rightarrow> (case mapE f xs of Inl e \<Rightarrow> Inl e | Inr ys \<Rightarrow> Inr (y # ys)))"

section \<open>The data model of \<open>cmc.go\<close>\<close>

text \<open>
  The structs \<open>Ticker\<close>, \<open>Price\<close>, \<open>Market\<close>, \<open>TickersOptions\<close>, \<open>PricesOptions\<close> and
  \<open>WebClient\<close>. A field whose name another record or a HOL constant already uses carries
  a suffix: \<open>_p\<close> (Price, PricesOptions) or \<open>_m\<close> (Market).
\<close>

record Ticker =
  ID :: string
  Name :: string
  Symbol :: string
  Rank :: go_int
  PriceUSD :: string
  PriceBTC :: string
  VolumeUSD24hr :: string
  MarketCapUSD :: string
  SupplyAvailable :: string
  SupplyTotal :: string
  PercentChange1h :: string
  PercentChange24h :: string
  PercentChange7d :: string
  LastUpdated :: string

record TickersOptions =
  Start :: go_int
  Limit :: go_int

record Price =
  Date :: string
  OpenUSD :: string
  HighUSD :: string
  LowUSD :: string
  CloseUSD :: string
  VolumeUSD24hr_p :: string
  MarketCapUSD_p :: string

record PricesOptions =
  Start_p :: string
  End_p :: string

record Market =
  Source :: string
  Pair_m :: string
  VolumeUSD24hr_m :: string
  PriceUSD_m :: string
  VolumePercentage :: string

record 'h WebClient =
  apiAddr :: string
  websiteAddr :: string
  httpClient :: 'h

text \<open>The zero values of the three record structs (every string empty, \<open>Rank\<close> 0).\<close>

definition zeroTicker :: Ticker where
  "zeroTicker = \<lparr>ID = [], Name = [], Symbol = [], Rank = 0, PriceUSD = [], PriceBTC = [],
     VolumeUSD24hr = [], MarketCapUSD = [], SupplyAvailable = [], SupplyTotal = [],
     PercentChange1h = [], PercentChange24h = [], PercentChange7d = [], LastUpdated = []\<rparr>"

definition zeroPrice :: Price where
  "zeroPrice = \<lparr>Date = [], OpenUSD = [], HighUSD = [], LowUSD = [], CloseUSD = [],
     VolumeUSD24hr_p = [], MarketCapUSD_p = []\<rparr>"

definition zeroMarket :: Market where
  "zeroMarket = \<lparr>Source = [], Pair_m = [], VolumeUSD24hr_m = [], PriceUSD_m = [],
     VolumePercentage = []\<rparr>"

section \<open>\<open>strconv\<close>: decimal rendering and parsing of integers\<close>

text \<open>
  \<open>strconv.Itoa\<close> renders an \<open>int\<close> in base 10, with a leading \<open>-\<close> when negative.
  \<open>strconv.ParseInt(s, 10, 64)\<close> accepts an optional sign followed by one or more decimal
  digits, and fails when the value is outside the signed 64-bit range.
\<close>

definition digitChar :: "nat \<Rightarrow> char" where
  "digitChar d = ''0123456789'' ! d"

fun natDigits :: "nat \<Rightarrow> string" where
  "natDigits n =
     (if n < 10 then [digitChar n] else natDigits (n div 10) @ [digitChar (n mod 10)])"

declare natDigits.simps [simp del]

definition Itoa :: "go_int \<Rightarrow> string" where
  "Itoa i = (if sint i < 0 then CHR ''-'' # natDigits (nat (- sint i))
             else natDigits (nat (sint i)))"

definition isDigit :: "char \<Rightarrow> bool" where
  "isDigit c = (48 \<le> (of_char c :: nat) \<and> (of_char c :: nat) \<le> 57)"

definition digitVal :: "char \<Rightarrow> nat option" where
  "digitVal c = (if isDigit c then Some (of_char c - 48) else None)"

fun parseDigits :: "string \<Rightarrow> nat \<Rightarrow> nat option" where
  "parseDigits [] acc = Some acc"
| "parseDigits (c # cs) acc =
     (case digitVal c of None \<Rightarrow> None | Some d \<Rightarrow> parseDigits cs (acc * 10 + d))"

definition ParseUint :: "string \<Rightarrow> nat option" where
  "ParseUint s = (if s = [] then None else parseDigits s 0)"

definition ParseInt :: "string \<Rightarrow> go_int option" where
  "ParseInt s =
     (case s of
        [] \<Rightarrow> None
      | c # cs \<Rightarrow>
          (let neg = (c = CHR ''-'');
               ds = (if c = CHR ''+'' \<or> c = CHR ''-'' then cs else s)
           in case ParseUint ds of
                None \<Rightarrow> None
              | Some un \<Rightarrow>
                  if \<not> neg \<and> un \<ge> 2 ^ 63 then None
                  else if neg \<and> un > 2 ^ 63 then None
                  else Some (if neg then - word_of_int (int un) else word_of_int (int un))))"

section \<open>\<open>net/url\<close>: query strings\<close>

text \<open>
  \<open>url.QueryEscape\<close> keeps ASCII letters, digits and \<open>- _ . ~\<close>, writes a space as \<open>+\<close>
  and every other byte as \<open>%XX\<close> in upper-case hexadecimal. \<open>url.Values\<close> is a map from a
  key to the list of its values: an association list with one entry for each key here.
  \<open>Values.Add\<close> appends a value to the key's list; \<open>Values.Encode\<close> writes
  \<open>key=value\<close> pairs joined by \<open>&\<close>, the keys sorted.
\<close>

definition isAlnum :: "char \<Rightarrow> bool" where
  "isAlnum c = (let b = (of_char c :: nat) in
     (48 \<le> b \<and> b \<le> 57) \<or> (65 \<le> b \<and> b \<le> 90) \<or> (97 \<le> b \<and> b \<le> 122))"

definition shouldEscape :: "char \<Rightarrow> bool" where
  "shouldEscape c = (\<not> (isAlnum c \<or> c = CHR ''-'' \<or> c = CHR ''_'' \<or> c = CHR ''.''
     \<or> c = CHR ''~''))"

definition upperhex :: "nat \<Rightarrow> char" where
  "upperhex n = ''0123456789ABCDEF'' ! n"

definition escapeByte :: "char \<Rightarrow> string" where
  "escapeByte c =
     (if shouldEscape c then
        (if c = CHR '' '' then ''+''
         else [CHR ''%'', upperhex ((of_char c :: nat) div 16), upperhex ((of_char c :: nat) mod 16)])
      else [c])"

definition QueryEscape :: "string \<Rightarrow> string" where
  "QueryEscape s = concat (map escapeByte s)"

type_synonym Values = "(string \<times> string list) list"

fun Values_Add :: "Values \<Rightarrow> string \<Rightarrow> string \<Rightarrow> Values" where
  "Values_Add [] k v = [(k, [v])]"
| "Values_Add ((k', vs) # q) k v =
     (if k' = k then (k', vs @ [v]) # q else (k', vs) # Values_Add q k v)"

fun joinAmp :: "string list \<Rightarrow> string" where
  "joinAmp [] = []"
| "joinAmp [x] = x"
| "joinAmp (x # y # ys) = x @ ''&'' @ joinAmp (y # ys)"

definition Values_Encode :: "Values \<Rightarrow> string" where
  "Values_Encode q =
     joinAmp (concat (map
       (\<lambda>k. map (\<lambda>v. QueryEscape k @ ''='' @ QueryEscape v)
                (case map_of q k of Some vs \<Rightarrow> vs | None \<Rightarrow> []))
       (sort (map fst q))))"

section \<open>JSON values and \<open>encoding/json\<close>\<close>

text \<open>
  A JSON value as the scanner of \<open>encoding/json\<close> delivers it: a string is its unquoted
  content, a number its literal, an object its members in document order (duplicates
  included).
\<close>

datatype json =
    JNull
  | JBool bool
  | JNumber string
  | JString string
  | JArray "json list"
  | JObject "(string \<times> json) list"

subsection \<open>Unmarshalling\<close>

text \<open>
  The rules of \<open>json.Unmarshal\<close> that the struct declarations of \<open>cmc.go\<close> invoke:
  \<^item> an object member is stored into the field whose \<open>json\<close> tag name equals the key, or
    else into the first field whose name matches it case-insensitively (\<open>eqf\<close>, the
    library's folding, is a parameter); a key that matches no field is skipped; a field
    tagged \<open>json:"-"\<close> has no name and is never matched;
  \<^item> a JSON string is stored into a \<open>string\<close> field as it is; \<open>null\<close> leaves a field
    unchanged; any other value is an error;
  \<^item> the \<open>,string\<close> option of \<open>Rank\<close> takes a JSON string whose content starts with a
    digit or \<open>-\<close> and stores its \<open>strconv.ParseInt\<close> (\<open>null\<close>, also inside the string,
    leaves the field unchanged); anything else is an error;
  \<^item> an array element of type \<open>*T\<close> is nil for \<open>null\<close>, a fresh struct filled from an
    object, and an error otherwise;
  \<^item> a slice is nil for \<open>null\<close>, a non-nil slice with one element per array element for an
    array, and an error otherwise.
  The decoder reports its first error; the callers drop whatever was stored before it.
\<close>

definition findField :: "(string \<Rightarrow> string \<Rightarrow> bool) \<Rightarrow> string list \<Rightarrow> string \<Rightarrow> string option" where
  "findField eqf tags key = (if key \<in> set tags then Some key else find (\<lambda>t. eqf t key) tags)"

fun storeFields ::
  "(string \<Rightarrow> string \<Rightarrow> bool) \<Rightarrow> string list \<Rightarrow> (string \<Rightarrow> json \<Rightarrow> 's \<Rightarrow> error + 's) \<Rightarrow>
   (string \<times> json) list \<Rightarrow> 's \<Rightarrow> error + 's" where
  "storeFields eqf tags setf [] s = Inr s"
| "storeFields eqf tags setf ((k, v) # kvs) s =
     (case findField eqf tags k of
        None \<Rightarrow> storeFields eqf tags setf kvs s
      | Some f \<Rightarrow>
          (case setf f v s of
             Inl e \<Rightarrow> Inl e
           | Inr s' \<Rightarrow> storeFields eqf tags setf kvs s'))"

definition storeString :: "json \<Rightarrow> string \<Rightarrow> error + string" where
  "storeString v old =
     (case v of JString s \<Rightarrow> Inr s | JNull \<Rightarrow> Inr old | _ \<Rightarrow> Inl JSONUnmarshalError)"

definition storeIntQuoted :: "json \<Rightarrow> go_int \<Rightarrow> error + go_int" where
  "storeIntQuoted v old =
     (case v of
        JNull \<Rightarrow> Inr old
      | JString s \<Rightarrow>
          (if s = ''null'' then Inr old
           else if s \<noteq> [] \<and> (hd s = CHR ''-'' \<or> isDigit (hd s)) then
             (case ParseInt s of Some n \<Rightarrow> Inr n | None \<Rightarrow> Inl JSONUnmarshalError)
           else Inl JSONUnmarshalError)
      | _ \<Rightarrow> Inl JSONUnmarshalError)"

definition unmarshalPtr ::
  "(string \<Rightarrow> string \<Rightarrow> bool) \<Rightarrow> string list \<Rightarrow> (string \<Rightarrow> json \<Rightarrow> 's \<Rightarrow> error + 's) \<Rightarrow> 's \<Rightarrow>
   json \<Rightarrow> error + 's ptr" where
  "unmarshalPtr eqf tags setf zero v =
     (case v of
        JNull \<Rightarrow> Inr None
      | JObject kvs \<Rightarrow>
          (case storeFields eqf tags setf kvs zero of Inl e \<Rightarrow> Inl e | Inr s \<Rightarrow> Inr (Some s))
      | _ \<Rightarrow> Inl JSONUnmarshalError)"

definition unmarshalSlice :: "(json \<Rightarrow> error + 'a) \<Rightarrow> json \<Rightarrow> error + 'a slice" where
  "unmarshalSlice elem v =
     (case v of
        JNull \<Rightarrow> Inr None
      | JArray xs \<Rightarrow> (case mapE elem xs of Inl e \<Rightarrow> Inl e | Inr ys \<Rightarrow> Inr (Some ys))
      | _ \<Rightarrow> Inl JSONUnmarshalError)"

text \<open>The \<open>json\<close> tags of \<open>Ticker\<close>, in field order, and the store into each tagged field.\<close>

definition tickerTags :: "string list" where
  "tickerTags = [''id'', ''name'', ''symbol'', ''rank'', ''price_usd'', ''price_btc'',
     ''24h_volume_usd'', ''market_cap_usd'', ''available_supply'', ''total_supply'',
     ''percent_change_1h'', ''percent_change_24h'', ''percent_change_7d'', ''last_updated'']"

definition setTickerField :: "string \<Rightarrow> json \<Rightarrow> Ticker \<Rightarrow> error + Ticker" where
  "setTickerField f v t =
     (if f = ''id'' then map_sum id (\<lambda>s. t\<lparr>ID := s\<rparr>) (storeString v (ID t))
      else if f = ''name'' then map_sum id (\<lambda>s. t\<lparr>Name := s\<rparr>) (storeString v (Name t))
      else if f = ''symbol'' then map_sum id (\<lambda>s. t\<lparr>Symbol := s\<rparr>) (storeString v (Symbol t))
      else if f = ''rank'' then map_sum id (\<lambda>n. t\<lparr>Rank := n\<rparr>) (storeIntQuoted v (Rank t))
      else if f = ''price_usd'' then map_sum id (\<lambda>s. t\<lparr>PriceUSD := s\<rparr>) (storeString v (PriceUSD t))
      else if f = ''price_btc'' then map_sum id (\<lambda>s. t\<lparr>PriceBTC := s\<rparr>) (storeString v (PriceBTC t))
      else if f = ''24h_volume_usd'' then
        map_sum id (\<lambda>s. t\<lparr>VolumeUSD24hr := s\<rparr>) (storeString v (VolumeUSD24hr t))
      else if f = ''market_cap_usd'' then
        map_sum id (\<lambda>s. t\<lparr>MarketCapUSD := s\<rparr>) (storeString v (MarketCapUSD t))
      else if f = ''available_supply'' then
        map_sum id (\<lambda>s. t\<lparr>SupplyAvailable := s\<rparr>) (storeString v (SupplyAvailable t))
      else if f = ''total_supply'' then
        map_sum id (\<lambda>s. t\<lparr>SupplyTotal := s\<rparr>) (storeString v (SupplyTotal t))
      else if f = ''percent_change_1h'' then
        map_sum id (\<lambda>s. t\<lparr>PercentChange1h := s\<rparr>) (storeString v (PercentChange1h t))
      else if f = ''percent_change_24h'' then
        map_sum id (\<lambda>s. t\<lparr>PercentChange24h := s\<rparr>) (storeString v (PercentChange24h t))
      else if f = ''percent_change_7d'' then
        map_sum id (\<lambda>s. t\<lparr>PercentChange7d := s\<rparr>) (storeString v (PercentChange7d t))
      else if f = ''last_updated'' then
        map_sum id (\<lambda>s. t\<lparr>LastUpdated := s\<rparr>) (storeString v (LastUpdated t))
      else Inr t)"

definition unmarshalTickers :: "(string \<Rightarrow> string \<Rightarrow> bool) \<Rightarrow> json \<Rightarrow> error + Ticker ptr slice" where
  "unmarshalTickers eqf = unmarshalSlice (unmarshalPtr eqf tickerTags setTickerField zeroTicker)"

subsection \<open>Marshalling\<close>

text \<open>
  \<open>json.Marshal\<close> writes a struct as an object with one member per tagged field, in field
  order, and leaves out a field tagged \<open>json:"-"\<close>. A string is coerced to valid UTF-8:
  every byte that does not start a well-formed UTF-8 sequence is replaced by the
  replacement character U+FFFD (bytes \<open>EF BF BD\<close>). An \<open>int\<close> under the \<open>,string\<close> option
  is written as a JSON string holding its decimal numeral. A nil pointer and a nil slice are
  \<open>null\<close>.

  \<open>runeLen\<close> is the length of the well-formed UTF-8 sequence at the head of a string
  (0 when there is none), after the table of \<open>unicode/utf8\<close>.
\<close>

definition isCont :: "char \<Rightarrow> bool" where
  "isCont c = (128 \<le> (of_char c :: nat) \<and> (of_char c :: nat) \<le> 191)"

definition inRange :: "nat \<Rightarrow> nat \<Rightarrow> char \<Rightarrow> bool" where
  "inRange lo hi c = (lo \<le> (of_char c :: nat) \<and> (of_char c :: nat) \<le> hi)"

fun runeLen :: "string \<Rightarrow> nat" where
  "runeLen [] = 0"
| "runeLen (c # cs) =
     (let b = (of_char c :: nat) in
      if b < 128 then 1
      else if 194 \<le> b \<and> b \<le> 223 then
        (case cs of c1 # _ \<Rightarrow> if isCont c1 then 2 else 0 | _ \<Rightarrow> 0)
      else if 224 \<le> b \<and> b \<le> 239 then
        (case cs of
           c1 # c2 # _ \<Rightarrow>
             if inRange (if b = 224 then 160 else 128) (if b = 237 then 159 else 191) c1
                \<and> isCont c2 then 3 else 0
         | _ \<Rightarrow> 0)
      else if 240 \<le> b \<and> b \<le> 244 then
        (case cs of
           c1 # c2 # c3 # _ \<Rightarrow>
             if inRange (if b = 240 then 144 else 128) (if b = 244 then 143 else 191) c1
                \<and> isCont c2 \<and> isCont c3 then 4 else 0
         | _ \<Rightarrow> 0)
      else 0)"

definition runeError :: string where
  "runeError = [CHR 0xEF, CHR 0xBF, CHR 0xBD]"

text \<open>
  \<open>coerceFrom k s\<close> copies the \<open>k\<close> bytes that remain of the sequence being read, then
  goes on rune by rune.
\<close>

fun coerceFrom :: "nat \<Rightarrow> string \<Rightarrow> string" where
  "coerceFrom k [] = []"
| "coerceFrom (Suc k) (c # cs) = c # coerceFrom k cs"
| "coerceFrom 0 (c # cs) =
     (case runeLen (c # cs) of
        0 \<Rightarrow> runeError @ coerceFrom 0 cs
      | Suc k \<Rightarrow> c # coerceFrom k cs)"

definition toValidUTF8 :: "string \<Rightarrow> string" where
  "toValidUTF8 s = coerceFrom 0 s"

definition validUTF8 :: "string \<Rightarrow> bool" where
  "validUTF8 s = (toValidUTF8 s = s)"

definition marshalString :: "string \<Rightarrow> json" where
  "marshalString s = JString (toValidUTF8 s)"

definition marshalTicker :: "Ticker \<Rightarrow> json" where
  "marshalTicker t = JObject
     [(''id'', marshalString (ID t)),
      (''name'', marshalString (Name t)),
      (''symbol'', marshalString (Symbol t)),
      (''rank'', JString (Itoa (Rank t))),
      (''price_usd'', marshalString (PriceUSD t)),
      (''price_btc'', marshalString (PriceBTC t)),
      (''24h_volume_usd'', marshalString (VolumeUSD24hr t)),
      (''market_cap_usd'', marshalString (MarketCapUSD t)),
      (''available_supply'', marshalString (SupplyAvailable t)),
      (''total_supply'', marshalString (SupplyTotal t)),
      (''percent_change_1h'', marshalString (PercentChange1h t)),
      (''percent_change_24h'', marshalString (PercentChange24h t)),
      (''percent_change_7d'', marshalString (PercentChange7d t)),
      (''last_updated'', marshalString (LastUpdated t))]"

definition marshalPtr :: "('a \<Rightarrow> json) \<Rightarrow> 'a ptr \<Rightarrow> json" where
  "marshalPtr enc p = (case p of None \<Rightarrow> JNull | Some x \<Rightarrow> enc x)"

definition marshalSlice :: "('a \<Rightarrow> json) \<Rightarrow> 'a slice \<Rightarrow> json" where
  "marshalSlice enc xs = (case xs of None \<Rightarrow> JNull | Some ys \<Rightarrow> JArray (map enc ys))"

definition marshalTickers :: "Ticker ptr slice \<Rightarrow> json" where
  "marshalTickers = marshalSlice (marshalPtr marshalTicker)"

text \<open>The tags of \<open>Price\<close> and of \<open>Market\<close>, whose \<open>VolumeUSD24hr\<close> and \<open>PriceUSD\<close> are tagged
  \<open>json:"-"\<close>.\<close>

definition priceTags :: "string list" where
  "priceTags = [''date'', ''open'', ''high_usd'', ''low_usd'', ''close_usd'',
     ''24hr_volume_usd'', ''market_cap_usd'']"

definition setPriceField :: "string \<Rightarrow> json \<Rightarrow> Price \<Rightarrow> error + Price" where
  "setPriceField f v p =
     (if f = ''date'' then map_sum id (\<lambda>s. p\<lparr>Date := s\<rparr>) (storeString v (Date p))
      else if f = ''open'' then map_sum id (\<lambda>s. p\<lparr>OpenUSD := s\<rparr>) (storeString v (OpenUSD p))
      else if f = ''high_usd'' then map_sum id (\<lambda>s. p\<lparr>HighUSD := s\<rparr>) (storeString v (HighUSD p))
      else if f = ''low_usd'' then map_sum id (\<lambda>s. p\<lparr>LowUSD := s\<rparr>) (storeString v (LowUSD p))
      else if f = ''close_usd'' then
        map_sum id (\<lambda>s. p\<lparr>CloseUSD := s\<rparr>) (storeString v (CloseUSD p))
      else if f = ''24hr_volume_usd'' then
        map_sum id (\<lambda>s. p\<lparr>VolumeUSD24hr_p := s\<rparr>) (storeString v (VolumeUSD24hr_p p))
      else if f = ''market_cap_usd'' then
        map_sum id (\<lambda>s. p\<lparr>MarketCapUSD_p := s\<rparr>) (storeString v (MarketCapUSD_p p))
      else Inr p)"

definition marshalPrice :: "Price \<Rightarrow> json" where
  "marshalPrice p = JObject
     [(''date'', marshalString (Date p)),
      (''open'', marshalString (OpenUSD p)),
      (''high_usd'', marshalString (HighUSD p)),
      (''low_usd'', marshalString (LowUSD p)),
      (''close_usd'', marshalString (CloseUSD p)),
      (''24hr_volume_usd'', marshalString (VolumeUSD24hr_p p)),
      (''market_cap_usd'', marshalString (MarketCapUSD_p p))]"

definition marketTags :: "string list" where
  "marketTags = [''source'', ''pair'', ''volume_percent'']"

definition setMarketField :: "string \<Rightarrow> json \<Rightarrow> Market \<Rightarrow> error + Market" where
  "setMarketField f v m =
     (if f = ''source'' then map_sum id (\<lambda>s. m\<lparr>Source := s\<rparr>) (storeString v (Source m))
      else if f = ''pair'' then map_sum id (\<lambda>s. m\<lparr>Pair_m := s\<rparr>) (storeString v (Pair_m m))
      else if f = ''volume_percent'' then
        map_sum id (\<lambda>s. m\<lparr>VolumePercentage := s\<rparr>) (storeString v (VolumePercentage m))
      else Inr m)"

definition marshalMarket :: "Market \<Rightarrow> json" where
  "marshalMarket m = JObject
     [(''source'', marshalString (Source m)),
      (''pair'', marshalString (Pair_m m)),
      (''volume_percent'', marshalString (VolumePercentage m))]"

definition unmarshalPrices :: "(string \<Rightarrow> string \<Rightarrow> bool) \<Rightarrow> json \<Rightarrow> error + Price ptr slice" where
  "unmarshalPrices eqf = unmarshalSlice (unmarshalPtr eqf priceTags setPriceField zeroPrice)"

definition marshalPrices :: "Price ptr slice \<Rightarrow> json" where
  "marshalPrices = marshalSlice (marshalPtr marshalPrice)"

definition unmarshalMarkets :: "(string \<Rightarrow> string \<Rightarrow> bool) \<Rightarrow> json \<Rightarrow> error + Market ptr slice" where
  "unmarshalMarkets eqf = unmarshalSlice (unmarshalPtr eqf marketTags setMarketField zeroMarket)"

definition marshalMarkets :: "Market ptr slice \<Rightarrow> json" where
  "marshalMarkets = marshalSlice (marshalPtr marshalMarket)"

section \<open>The environment: HTTP transport, JSON scanner, HTML documents\<close>

text \<open>
  What the package reaches through \<open>net/http\<close>, the scanner of \<open>encoding/json\<close> and
  \<open>goquery\<close> is a parameter of the model:
  \<^item> \<open>http_NewRequest_err m u\<close>: the error of \<open>http.NewRequest(m, u, nil)\<close>, if any;
  \<^item> \<open>http_Do h req w\<close>: \<open>h.Do(req)\<close> in the world \<open>w\<close> (the network and the servers):
    an error or the response body, and the world afterwards;
  \<^item> \<open>json_scan b\<close>: the first JSON value read from the body, or a syntax or read error;
  \<^item> \<open>json_equalFold\<close>: the case-insensitive comparison of a field name with a key;
  \<^item> \<open>html_parse b\<close>: the root node of the document parsed from the body, or a read error;
  \<^item> \<open>html_find sel n\<close>: the nodes below \<open>n\<close> that match the selector, in document order;
  \<^item> \<open>html_text ns\<close>: the text \<open>goq\<close> stores for the selection \<open>ns\<close>.
  \<open>'h\<close> is the HTTP client, \<open>'b\<close> a response body, \<open>'n\<close> an HTML node, \<open>'w\<close> the world.
  Closing the response body (\<open>defer res.Body.Close()\<close>) returns nothing and is left out.
\<close>

record request =
  Method :: string
  URL :: string

record ('h, 'b, 'n, 'w) env =
  http_NewRequest_err :: "string \<Rightarrow> string \<Rightarrow> error option"
  http_Do :: "'h \<Rightarrow> request \<Rightarrow> 'w \<Rightarrow> (error + 'b) \<times> 'w"
  json_scan :: "'b \<Rightarrow> error + json"
  json_equalFold :: "string \<Rightarrow> string \<Rightarrow> bool"
  html_parse :: "'b \<Rightarrow> error + 'n"
  html_find :: "string \<Rightarrow> 'n \<Rightarrow> 'n list"
  html_text :: "'n list \<Rightarrow> string"

definition http_NewRequest :: "('h, 'b, 'n, 'w) env \<Rightarrow> string \<Rightarrow> string \<Rightarrow> error + request" where
  "http_NewRequest env m u =
     (case http_NewRequest_err env m u of
        Some err \<Rightarrow> Inl err
      | None \<Rightarrow> Inr \<lparr>Method = m, URL = u\<rparr>)"

text \<open>\<open>json.NewDecoder(res.Body).Decode(&tickers)\<close> with \<open>tickers\<close> a \<open>[]*Ticker\<close>.\<close>

definition json_Decode_Tickers :: "('h, 'b, 'n, 'w) env \<Rightarrow> 'b \<Rightarrow> error + Ticker ptr slice" where
  "json_Decode_Tickers env body =
     (case json_scan env body of
        Inl err \<Rightarrow> Inl err
      | Inr v \<Rightarrow> unmarshalTickers (json_equalFold env) v)"

section \<open>\<open>Tickers\<close> and \<open>Ticker\<close>\<close>

definition TickersURL :: "'h WebClient \<Rightarrow> TickersOptions option \<Rightarrow> string" where
  "TickersURL cli opts =
     (let u = apiAddr cli @ ''/ticker'' in
      case opts of
        None \<Rightarrow> u
      | Some opt \<Rightarrow>
          (let q = Values_Add [] ''start'' (Itoa (Start opt));
               q = Values_Add q ''limit'' (Itoa (Limit opt))
           in u @ ''?'' @ Values_Encode q))"

definition Tickers ::
  "('h, 'b, 'n, 'w) env \<Rightarrow> 'h WebClient \<Rightarrow> TickersOptions option \<Rightarrow> 'w \<Rightarrow>
   (Ticker ptr slice \<times> error option) \<times> 'w" where
  "Tickers env cli opts w =
     (case http_NewRequest env ''GET'' (TickersURL cli opts) of
        Inl err \<Rightarrow> ((None, Some err), w)
      | Inr req \<Rightarrow>
          (case http_Do env (httpClient cli) req w of
             (Inl err, w') \<Rightarrow> ((None, Some err), w')
           | (Inr body, w') \<Rightarrow>
               (case json_Decode_Tickers env body of
                  Inl err \<Rightarrow> ((None, Some err), w')
                | Inr tickers \<Rightarrow> ((tickers, None), w'))))"

definition TickerURL :: "'h WebClient \<Rightarrow> string \<Rightarrow> string" where
  "TickerURL cli ident = apiAddr cli @ ''/ticker/'' @ ident"

text \<open>\<open>tickers[0]\<close> is read only where \<open>len(tickers) = 1\<close>; the other branch of the
  \<open>case\<close> is the one the length check has already returned from.\<close>

definition Ticker ::
  "('h, 'b, 'n, 'w) env \<Rightarrow> 'h WebClient \<Rightarrow> string \<Rightarrow> 'w \<Rightarrow> (Ticker ptr \<times> error option) \<times> 'w" where
  "Ticker env cli ident w =
     (case http_NewRequest env ''GET'' (TickerURL cli ident) of
        Inl err \<Rightarrow> ((None, Some err), w)
      | Inr req \<Rightarrow>
          (case http_Do env (httpClient cli) req w of
             (Inl err, w') \<Rightarrow> ((None, Some err), w')
           | (Inr body, w') \<Rightarrow>
               (case json_Decode_Tickers env body of
                  Inl err \<Rightarrow> ((None, Some err), w')
                | Inr tickers \<Rightarrow>
                    if len tickers \<noteq> 1 then ((None, Some UnexpectedTicker), w')
                    else (case tickers of
                            Some (t # _) \<Rightarrow> ((t, None), w')
                          | _ \<Rightarrow> ((None, Some UnexpectedTicker), w')))))"

section \<open>\<open>goq\<close>: the scraping structs \<open>pricesQ\<close> and \<open>marketsQ\<close>\<close>

text \<open>
  The rules of \<open>goq\<close>'s decoder that the two struct declarations invoke:
  \<^item> a field tagged \<open>goquery:"sel"\<close> is filled from the nodes that match \<open>sel\<close> below the
    current node;
  \<^item> a slice field gets one element per matched node, in document order, each filled from
    its node; with no matched node the slice stays empty and there is no error;
  \<^item> a \<open>string\<close> field is the text of the whole selection;
  \<^item> an array field \<open>[k]string\<close> needs exactly \<open>k\<close> matched nodes and takes the text of each
    in order; any other number of nodes is a \<open>CannotUnmarshalError\<close>;
  \<^item> the first error ends the decoding.
\<close>

record pricesQ_row =
  Date_q :: string
  Vals :: array6

record pricesQ =
  Prices_q :: "pricesQ_row list"

record marketsQ_row =
  SourcePair :: array2
  Vals_m :: array3

record marketsQ =
  Markets_q :: "marketsQ_row list"

definition unmarshal_pricesQ_row :: "('h, 'b, 'n, 'w) env \<Rightarrow> 'n \<Rightarrow> error + pricesQ_row" where
  "unmarshal_pricesQ_row env tr =
     (let date = html_text env (html_find env ''td.text-left'' tr) in
      case array6_of (map (\<lambda>n. html_text env [n]) (html_find env ''[data-format-value]'' tr)) of
        None \<Rightarrow> Inl GoqCannotUnmarshal
      | Some vals \<Rightarrow> Inr \<lparr>Date_q = date, Vals = vals\<rparr>)"

definition goq_Decode_pricesQ :: "('h, 'b, 'n, 'w) env \<Rightarrow> 'b \<Rightarrow> error + pricesQ" where
  "goq_Decode_pricesQ env body =
     (case html_parse env body of
        Inl err \<Rightarrow> Inl err
      | Inr root \<Rightarrow>
          (case mapE (unmarshal_pricesQ_row env) (html_find env ''tbody tr'' root) of
             Inl err \<Rightarrow> Inl err
           | Inr rows \<Rightarrow> Inr \<lparr>Prices_q = rows\<rparr>))"

definition unmarshal_marketsQ_row :: "('h, 'b, 'n, 'w) env \<Rightarrow> 'n \<Rightarrow> error + marketsQ_row" where
  "unmarshal_marketsQ_row env tr =
     (case array2_of (map (\<lambda>n. html_text env [n]) (html_find env ''td a'' tr)) of
        None \<Rightarrow> Inl GoqCannotUnmarshal
      | Some sp \<Rightarrow>
          (case array3_of (map (\<lambda>n. html_text env [n]) (html_find env ''td span'' tr)) of
             None \<Rightarrow> Inl GoqCannotUnmarshal
           | Some vals \<Rightarrow> Inr \<lparr>SourcePair = sp, Vals_m = vals\<rparr>))"

definition goq_Decode_marketsQ :: "('h, 'b, 'n, 'w) env \<Rightarrow> 'b \<Rightarrow> error + marketsQ" where
  "goq_Decode_marketsQ env body =
     (case html_parse env body of
        Inl err \<Rightarrow> Inl err
      | Inr root \<Rightarrow>
          (case mapE (unmarshal_marketsQ_row env) (html_find env ''tbody tr'' root) of
             Inl err \<Rightarrow> Inl err
           | Inr rows \<Rightarrow> Inr \<lparr>Markets_q = rows\<rparr>))"

section \<open>\<open>Prices\<close> and \<open>Markets\<close>\<close>

definition PricesURL :: "'h WebClient \<Rightarrow> string \<Rightarrow> PricesOptions option \<Rightarrow> string" where
  "PricesURL cli ident opts =
     (let u = websiteAddr cli @ ''/'' @ ident @ ''/historical-data'' in
      case opts of
        None \<Rightarrow> u
      | Some opt \<Rightarrow>
          (let q = Values_Add [] ''start'' (Start_p opt);
               q = Values_Add q ''end'' (End_p opt)
           in u @ ''?'' @ Values_Encode q))"

text \<open>\<open>clean\<close> is \<open>strings.Replace(s, ",", "", -1)\<close>: every comma is dropped.\<close>

fun clean :: "string \<Rightarrow> string" where
  "clean [] = []"
| "clean (c # cs) = (if c = CHR '','' then clean cs else c # clean cs)"

definition mkPrice :: "pricesQ_row \<Rightarrow> Price" where
  "mkPrice p =
     \<lparr>Date = Date_q p,
      OpenUSD = clean (at6_0 (Vals p)),
      HighUSD = clean (at6_1 (Vals p)),
      LowUSD = clean (at6_2 (Vals p)),
      CloseUSD = clean (at6_3 (Vals p)),
      VolumeUSD24hr_p = clean (at6_4 (Vals p)),
      MarketCapUSD_p = clean (at6_5 (Vals p))\<rparr>"

text \<open>The loop \<open>for _, p := range _prices.Prices\<close>, appending to \<open>prices\<close>.\<close>

fun Prices_loop :: "pricesQ_row list \<Rightarrow> Price ptr list \<Rightarrow> Price ptr list" where
  "Prices_loop [] prices = prices"
| "Prices_loop (p # ps) prices = Prices_loop ps (prices @ [Some (mkPrice p)])"

definition Prices ::
  "('h, 'b, 'n, 'w) env \<Rightarrow> 'h WebClient \<Rightarrow> string \<Rightarrow> PricesOptions option \<Rightarrow> 'w \<Rightarrow>
   (Price ptr slice \<times> error option) \<times> 'w" where
  "Prices env cli ident opts w =
     (case http_NewRequest env ''GET'' (PricesURL cli ident opts) of
        Inl err \<Rightarrow> ((None, Some err), w)
      | Inr req \<Rightarrow>
          (case http_Do env (httpClient cli) req w of
             (Inl err, w') \<Rightarrow> ((None, Some err), w')
           | (Inr body, w') \<Rightarrow>
               (case goq_Decode_pricesQ env body of
                  Inl err \<Rightarrow> ((None, Some err), w')
                | Inr q_prices \<Rightarrow> ((Some (Prices_loop (Prices_q q_prices) []), None), w'))))"

definition MarketsURL :: "'h WebClient \<Rightarrow> string \<Rightarrow> string" where
  "MarketsURL cli ident = websiteAddr cli @ ''/'' @ ident @ ''#markets''"

definition mkMarket :: "marketsQ_row \<Rightarrow> Market" where
  "mkMarket m =
     \<lparr>Source = at2_0 (SourcePair m),
      Pair_m = at2_1 (SourcePair m),
      VolumeUSD24hr_m = at3_0 (Vals_m m),
      PriceUSD_m = at3_1 (Vals_m m),
      VolumePercentage = at3_2 (Vals_m m)\<rparr>"

fun Markets_loop :: "marketsQ_row list \<Rightarrow> Market ptr list \<Rightarrow> Market ptr list" where
  "Markets_loop [] markets = markets"
| "Markets_loop (m # ms) markets = Markets_loop ms (markets @ [Some (mkMarket m)])"

definition Markets ::
  "('h, 'b, 'n, 'w) env \<Rightarrow> 'h WebClient \<Rightarrow> string \<Rightarrow> 'w \<Rightarrow>
   (Market ptr slice \<times> error option) \<times> 'w" where
  "Markets env cli ident w =
     (case http_NewRequest env ''GET'' (MarketsURL cli ident) of
        Inl err \<Rightarrow> ((None, Some err), w)
      | Inr req \<Rightarrow>
          (case http_Do env (httpClient cli) req w of
             (Inl err, w') \<Rightarrow> ((None, Some err), w')
           | (Inr body, w') \<Rightarrow>
               (case goq_Decode_marketsQ env body of
                  Inl err \<Rightarrow> ((None, Some err), w')
                | Inr q_markets \<Rightarrow> ((Some (Markets_loop (Markets_q q_markets) []), None), w'))))"

section \<open>Construction of a client\<close>

text \<open>\<open>NewWebClient\<close> starts from the package's default addresses and the default HTTP
  client of \<open>net/http\<close> (a parameter here) and applies the options in order.\<close>

definition defaultApiAddr :: string where
  "defaultApiAddr = ''https://api.coinmarketcap.com/v1''"

definition defaultWebsiteAddr :: string where
  "defaultWebsiteAddr = ''https://coinmarketcap.com/currencies''"

definition WithHTTPClient :: "'h \<Rightarrow> 'h WebClient \<Rightarrow> 'h WebClient" where
  "WithHTTPClient h cli = cli\<lparr>httpClient := h\<rparr>"

definition WithAPIAddress :: "string \<Rightarrow> 'h WebClient \<Rightarrow> 'h WebClient" where
  "WithAPIAddress a cli = cli\<lparr>apiAddr := a\<rparr>"

definition NewWebClient :: "'h \<Rightarrow> ('h WebClient \<Rightarrow> 'h WebClient) list \<Rightarrow> 'h WebClient" where
  "NewWebClient defaultClient opts =
     foldl (\<lambda>cli opt. opt cli)
       \<lparr>apiAddr = defaultApiAddr, websiteAddr = defaultWebsiteAddr, httpClient = defaultClient\<rparr>
       opts"

section \<open>Specification-level notions\<close>

text \<open>
  What the specification says about a ticker object, written without the decoder: the string
  bound to a key of an object (\<open>memberStr\<close>), the integer parse of the string bound to a key
  (\<open>memberInt\<close>), and the record the specification expects from an object
  (\<open>spec_ticker_of\<close>). A member of a valid ticker object either carries one of the fourteen
  tag names and a string (for \<open>rank\<close>, a string that parses as an integer), or a key that
  belongs to no field; the keys of a valid object are distinct.
\<close>

definition memberStr :: "(string \<times> json) list \<Rightarrow> string \<Rightarrow> string \<Rightarrow> string" where
  "memberStr kvs k d = (case map_of kvs k of Some (JString s) \<Rightarrow> s | _ \<Rightarrow> d)"

definition memberInt :: "(string \<times> json) list \<Rightarrow> string \<Rightarrow> go_int \<Rightarrow> go_int" where
  "memberInt kvs k d =
     (case map_of kvs k of
        Some (JString s) \<Rightarrow> (case ParseInt s of Some n \<Rightarrow> n | None \<Rightarrow> d)
      | _ \<Rightarrow> d)"

definition spec_ticker_from :: "(string \<times> json) list \<Rightarrow> Ticker \<Rightarrow> Ticker" where
  "spec_ticker_from kvs t =
     \<lparr>ID = memberStr kvs ''id'' (ID t),
      Name = memberStr kvs ''name'' (Name t),
      Symbol = memberStr kvs ''symbol'' (Symbol t),
      Rank = memberInt kvs ''rank'' (Rank t),
      PriceUSD = memberStr kvs ''price_usd'' (PriceUSD t),
      PriceBTC = memberStr kvs ''price_btc'' (PriceBTC t),
      VolumeUSD24hr = memberStr kvs ''24h_volume_usd'' (VolumeUSD24hr t),
      MarketCapUSD = memberStr kvs ''market_cap_usd'' (MarketCapUSD t),
      SupplyAvailable = memberStr kvs ''available_supply'' (SupplyAvailable t),
      SupplyTotal = memberStr kvs ''total_supply'' (SupplyTotal t),
      PercentChange1h = memberStr kvs ''percent_change_1h'' (PercentChange1h t),
      PercentChange24h = memberStr kvs ''percent_change_24h'' (PercentChange24h t),
      PercentChange7d = memberStr kvs ''percent_change_7d'' (PercentChange7d t),
      LastUpdated = memberStr kvs ''last_updated'' (LastUpdated t)\<rparr>"

definition spec_ticker_of :: "json \<Rightarrow> Ticker" where
  "spec_ticker_of v =
     (case v of JObject kvs \<Rightarrow> spec_ticker_from kvs zeroTicker | _ \<Rightarrow> zeroTicker)"

definition quotedInt :: "string \<Rightarrow> bool" where
  "quotedInt s = (s \<noteq> [] \<and> (hd s = CHR ''-'' \<or> isDigit (hd s)) \<and> ParseInt s \<noteq> None)"

definition validTickerMember :: "(string \<Rightarrow> string \<Rightarrow> bool) \<Rightarrow> string \<times> json \<Rightarrow> bool" where
  "validTickerMember eqf kv =
     (if fst kv \<in> set tickerTags then
        (case snd kv of
           JString s \<Rightarrow> if fst kv = ''rank'' then quotedInt s else True
         | _ \<Rightarrow> False)
      else find (\<lambda>t. eqf t (fst kv)) tickerTags = None)"

definition validTickerObject :: "(string \<Rightarrow> string \<Rightarrow> bool) \<Rightarrow> json \<Rightarrow> bool" where
  "validTickerObject eqf v =
     (case v of
        JObject kvs \<Rightarrow> distinct (map fst kvs) \<and> list_all (validTickerMember eqf) kvs
      | _ \<Rightarrow> False)"

text \<open>
  The records the specification expects from one table row of the historical-data page (the
  date cell, then the six value cells in the order open, high, low, close, volume, market
  cap, each without its commas) and from one row of the markets page (the two link texts,
  then the three further cells).
\<close>

definition spec_price_of :: "('h, 'b, 'n, 'w) env \<Rightarrow> 'n \<Rightarrow> Price" where
  "spec_price_of env tr =
     (let cells = html_find env ''[data-format-value]'' tr;
          noComma = filter (\<lambda>c. c \<noteq> CHR '','')
      in \<lparr>Date = html_text env (html_find env ''td.text-left'' tr),
          OpenUSD = noComma (html_text env [cells ! 0]),
          HighUSD = noComma (html_text env [cells ! 1]),
          LowUSD = noComma (html_text env [cells ! 2]),
          CloseUSD = noComma (html_text env [cells ! 3]),
          VolumeUSD24hr_p = noComma (html_text env [cells ! 4]),
          MarketCapUSD_p = noComma (html_text env [cells ! 5])\<rparr>)"

definition spec_market_of :: "('h, 'b, 'n, 'w) env \<Rightarrow> 'n \<Rightarrow> Market" where
  "spec_market_of env tr =
     (let links = html_find env ''td a'' tr;
          spans = html_find env ''td span'' tr
      in \<lparr>Source = html_text env [links ! 0],
          Pair_m = html_text env [links ! 1],
          VolumeUSD24hr_m = html_text env [spans ! 0],
          PriceUSD_m = html_text env [spans ! 1],
          VolumePercentage = html_text env [spans ! 2]\<rparr>)"

text \<open>The rows that carry the expected number of cells.\<close>

definition priceRowOK :: "('h, 'b, 'n, 'w) env \<Rightarrow> 'n \<Rightarrow> bool" where
  "priceRowOK env tr = (length (html_find env ''[data-format-value]'' tr) = 6)"

definition marketRowOK :: "('h, 'b, 'n, 'w) env \<Rightarrow> 'n \<Rightarrow> bool" where
  "marketRowOK env tr =
     (length (html_find env ''td a'' tr) = 2 \<and> length (html_find env ''td span'' tr) = 3)"

text \<open>
  For the round trip through JSON: the records whose tagged strings are valid UTF-8, and
  what is left of a \<open>Market\<close> once the two fields tagged \<open>json:"-"\<close> are gone.
\<close>

definition utf8Ticker :: "Ticker \<Rightarrow> bool" where
  "utf8Ticker t =
     (validUTF8 (ID t) \<and> validUTF8 (Name t) \<and> validUTF8 (Symbol t) \<and> validUTF8 (PriceUSD t)
      \<and> validUTF8 (PriceBTC t) \<and> validUTF8 (VolumeUSD24hr t) \<and> validUTF8 (MarketCapUSD t)
      \<and> validUTF8 (SupplyAvailable t) \<and> validUTF8 (SupplyTotal t)
      \<and> validUTF8 (PercentChange1h t) \<and> validUTF8 (PercentChange24h t)
      \<and> validUTF8 (PercentChange7d t) \<and> validUTF8 (LastUpdated t))"

definition utf8Price :: "Price \<Rightarrow> bool" where
  "utf8Price p =
     (validUTF8 (Date p) \<and> validUTF8 (OpenUSD p) \<and> validUTF8 (HighUSD p) \<and> validUTF8 (LowUSD p)
      \<and> validUTF8 (CloseUSD p) \<and> validUTF8 (VolumeUSD24hr_p p) \<and> validUTF8 (MarketCapUSD_p p))"

definition utf8Market :: "Market \<Rightarrow> bool" where
  "utf8Market m =
     (validUTF8 (Source m) \<and> validUTF8 (Pair_m m) \<and> validUTF8 (VolumePercentage m))"

definition allPtr :: "('a \<Rightarrow> bool) \<Rightarrow> 'a ptr slice \<Rightarrow> bool" where
  "allPtr P s =
     (case s of
        None \<Rightarrow> True
      | Some xs \<Rightarrow> list_all (\<lambda>x. case x of None \<Rightarrow> True | Some y \<Rightarrow> P y) xs)"

definition mapPtr :: "('a \<Rightarrow> 'a) \<Rightarrow> 'a ptr slice \<Rightarrow> 'a ptr slice" where
  "mapPtr f s = map_option (map (map_option f)) s"

definition untagged_dropped :: "Market \<Rightarrow> Market" where
  "untagged_dropped m = m\<lparr>VolumeUSD24hr_m := [], PriceUSD_m := []\<rparr>"

section \<open>Test doubles\<close>

text \<open>
  A concrete environment for evaluating the operations: the transport answers every request
  with a fixed response and appends the request to the world (the log of requests it has
  served); a body is a JSON value or an HTML document; a document is a list of table rows,
  a price row holding its date cell and its value cells, a market row its links and its
  spans. \<open>fx_find\<close> answers the five selectors of \<open>pricesQ\<close> and \<open>marketsQ\<close>.
\<close>

datatype fx_node =
    Doc "fx_node list"
  | PriceRow string "string list"
  | MarketRow "string list" "string list"
  | Cell string

datatype fx_body = JSONBody json | HTMLBody fx_node

definition fx_find :: "string \<Rightarrow> fx_node \<Rightarrow> fx_node list" where
  "fx_find sel n =
     (case n of
        Doc rows \<Rightarrow> if sel = ''tbody tr'' then rows else []
      | PriceRow d vs \<Rightarrow>
          if sel = ''td.text-left'' then [Cell d]
          else if sel = ''[data-format-value]'' then map Cell vs else []
      | MarketRow ls vs \<Rightarrow>
          if sel = ''td a'' then map Cell ls
          else if sel = ''td span'' then map Cell vs else []
      | Cell s \<Rightarrow> [])"

definition fx_text :: "fx_node list \<Rightarrow> string" where
  "fx_text ns = concat (map (\<lambda>n. case n of Cell s \<Rightarrow> s | _ \<Rightarrow> []) ns)"

definition fx_env :: "(error + fx_body) \<Rightarrow> (unit, fx_body, fx_node, request list) env" where
  "fx_env resp =
     \<lparr>http_NewRequest_err = (\<lambda>m u. None),
      http_Do = (\<lambda>h req w. (resp, w @ [req])),
      json_scan = (\<lambda>b. case b of JSONBody v \<Rightarrow> Inr v
                        | HTMLBody n \<Rightarrow> Inl (LibError ''invalid character'')),
      json_equalFold = (=),
      html_parse = (\<lambda>b. case b of HTMLBody n \<Rightarrow> Inr n | JSONBody v \<Rightarrow> Inr (Doc [])),
      html_find = fx_find,
      html_text = fx_text\<rparr>"

definition fx_cli :: "unit WebClient" where
  "fx_cli = NewWebClient () []"

text \<open>A historical-data page with one row, and a markets page with one row.\<close>

definition fx_price_page :: fx_node where
  "fx_price_page =
     Doc [PriceRow ''2020-01-01''
            [''1,000'', ''1,100'', ''900'', ''1,050'', ''500,000'', ''1,000,000'']]"

definition fx_market_page :: fx_node where
  "fx_market_page =
     Doc [MarketRow [''Bitfinex'', ''BTC/USD''] [''$72,855,700'', ''$573.14'', ''12.50%'']]"

definition fx_price_request :: request where
  "fx_price_request =
     \<lparr>Method = ''GET'', URL = ''https://coinmarketcap.com/currencies/bitcoin/historical-data''\<rparr>"

definition fx_market_request :: request where
  "fx_market_request =
     \<lparr>Method = ''GET'', URL = ''https://coinmarketcap.com/currencies/bitcoin#markets''\<rparr>"

definition fx_tickers_request :: request where
  "fx_tickers_request = \<lparr>Method = ''GET'', URL = ''https://api.coinmarketcap.com/v1/ticker''\<rparr>"

definition fx_ticker_request :: request where
  "fx_ticker_request =
     \<lparr>Method = ''GET'', URL = ''https://api.coinmarketcap.com/v1/ticker/bitcoin''\<rparr>"

text \<open>The first object of the body of \<open>TestTickers\<close> (\<open>cmc_test.go\<close>) and its record.\<close>

definition bitcoinJSON :: json where
  "bitcoinJSON = JObject
     [(''id'', JString ''bitcoin''), (''name'', JString ''Bitcoin''),
      (''symbol'', JString ''BTC''), (''rank'', JString ''1''),
      (''price_usd'', JString ''573.137''), (''price_btc'', JString ''1.0''),
      (''24h_volume_usd'', JString ''72855700.0''),
      (''market_cap_usd'', JString ''9080883500.0''),
      (''available_supply'', JString ''15844176.0''),
      (''total_supply'', JString ''15844176.0''),
      (''percent_change_1h'', JString ''0.04''), (''percent_change_24h'', JString ''-0.3''),
      (''percent_change_7d'', JString ''-0.57''), (''last_updated'', JString ''1472762067'')]"

definition bitcoin :: Ticker where
  "bitcoin = \<lparr>ID = ''bitcoin'', Name = ''Bitcoin'', Symbol = ''BTC'', Rank = 1,
     PriceUSD = ''573.137'', PriceBTC = ''1.0'', VolumeUSD24hr = ''72855700.0'',
     MarketCapUSD = ''9080883500.0'', SupplyAvailable = ''15844176.0'',
     SupplyTotal = ''15844176.0'', PercentChange1h = ''0.04'', PercentChange24h = ''-0.3'',
     PercentChange7d = ''-0.57'', LastUpdated = ''1472762067''\<rparr>"

text \<open>The second object of that body and its record; a price and a market record.\<close>

definition ethereumJSON :: json where
  "ethereumJSON = JObject
     [(''id'', JString ''ethereum''), (''name'', JString ''Ethereum''),
      (''symbol'', JString ''ETH''), (''rank'', JString ''2''),
      (''price_usd'', JString ''12.1844''), (''price_btc'', JString ''0.021262''),
      (''24h_volume_usd'', JString ''24085900.0''),
      (''market_cap_usd'', JString ''1018098455.0''),
      (''available_supply'', JString ''83557537.0''),
      (''total_supply'', JString ''83557537.0''),
      (''percent_change_1h'', JString ''-0.58''), (''percent_change_24h'', JString ''6.34''),
      (''percent_change_7d'', JString ''8.59''), (''last_updated'', JString ''1472762062'')]"

definition ethereum :: Ticker where
  "ethereum = \<lparr>ID = ''ethereum'', Name = ''Ethereum'', Symbol = ''ETH'', Rank = 2,
     PriceUSD = ''12.1844'', PriceBTC = ''0.021262'', VolumeUSD24hr = ''24085900.0'',
     MarketCapUSD = ''1018098455.0'', SupplyAvailable = ''83557537.0'',
     SupplyTotal = ''83557537.0'', PercentChange1h = ''-0.58'', PercentChange24h = ''6.34'',
     PercentChange7d = ''8.59'', LastUpdated = ''1472762062''\<rparr>"

definition fx_price :: Price where
  "fx_price = \<lparr>Date = ''2020-01-01'', OpenUSD = ''1000'', HighUSD = ''1100'', LowUSD = ''900'',
     CloseUSD = ''1050'', VolumeUSD24hr_p = ''500000'', MarketCapUSD_p = ''1000000''\<rparr>"

definition fx_market :: Market where
  "fx_market = \<lparr>Source = ''Bitfinex'', Pair_m = ''BTC/USD'', VolumeUSD24hr_m = ''$72,855,700'',
     PriceUSD_m = ''$573.14'', VolumePercentage = ''12.50%''\<rparr>"

section \<open>Basic facts\<close>

lemma mapE_length: "mapE f xs = Inr ys \<Longrightarrow> length ys = length xs"
  by (induction xs arbitrary: ys) (auto split: sum.splits)

lemma mapE_rows_ok:
  assumes "\<And>x. x \<in> set xs \<Longrightarrow> \<exists>r. f x = Inr r \<and> mk r = g x"
  shows "\<exists>rs. mapE f xs = Inr rs \<and> map mk rs = map g xs"
  using assms
proof (induction xs)
  case Nil
  then show ?case by simp
next
  case (Cons x xs)
  from Cons.prems obtain r where r: "f x = Inr r" "mk r = g x" by auto
  from Cons obtain rs where rs: "mapE f xs = Inr rs" "map mk rs = map g xs" by auto
  from r rs show ?case by simp
qed

lemma mapE_rows_err:
  assumes "x \<in> set xs" and "\<And>x. x \<in> set xs \<Longrightarrow> f x = Inl e \<or> (\<exists>r. f x = Inr r)"
    and "f x = Inl e"
  shows "mapE f xs = Inl e"
  using assms
proof (induction xs)
  case Nil
  then show ?case by simp
next
  case (Cons y ys)
  show ?case
  proof (cases "f y")
    case (Inl e')
    with Cons.prems(2) [of y] show ?thesis by auto
  next
    case (Inr r)
    with Cons.prems have "x \<in> set ys" by auto
    with Cons have "mapE f ys = Inl e" by auto
    with Inr show ?thesis by simp
  qed
qed

lemma fx_default_cli:
  "apiAddr fx_cli = ''https://api.coinmarketcap.com/v1''"
  "websiteAddr fx_cli = ''https://coinmarketcap.com/currencies''"
  "httpClient fx_cli = ()"
  by (simp_all add: fx_cli_def NewWebClient_def defaultApiAddr_def defaultWebsiteAddr_def)

lemma fx_env_request: "http_NewRequest (fx_env resp) m u = Inr \<lparr>Method = m, URL = u\<rparr>"
  by (simp add: fx_env_def http_NewRequest_def)

lemma fx_env_simps:
  "http_Do (fx_env resp) h req w = (resp, w @ [req])"
  "json_scan (fx_env resp) (JSONBody v) = Inr v"
  "json_equalFold (fx_env resp) = (=)"
  "json_scan (fx_env resp) (HTMLBody n) = Inl (LibError ''invalid character'')"
  "html_parse (fx_env resp) (HTMLBody n) = Inr n"
  "html_parse (fx_env resp) (JSONBody v) = Inr (Doc [])"
  "html_find (fx_env resp) = fx_find"
  "html_text (fx_env resp) = fx_text"
  by (simp_all add: fx_env_def)

lemma fx_requests:
  "http_NewRequest (fx_env resp) ''GET'' (PricesURL fx_cli ''bitcoin'' None) = Inr fx_price_request"
  "http_NewRequest (fx_env resp) ''GET'' (MarketsURL fx_cli ''bitcoin'') = Inr fx_market_request"
  "http_NewRequest (fx_env resp) ''GET'' (TickersURL fx_cli None) = Inr fx_tickers_request"
  "http_NewRequest (fx_env resp) ''GET'' (TickerURL fx_cli ''bitcoin'') = Inr fx_ticker_request"
  by (simp_all add: fx_env_request PricesURL_def MarketsURL_def TickersURL_def TickerURL_def
      fx_default_cli fx_price_request_def fx_market_request_def fx_tickers_request_def
      fx_ticker_request_def)

lemma fx_Do: "http_Do (fx_env resp) (httpClient fx_cli) req [] = (resp, [req])"
  by (simp add: fx_env_simps)

lemma ParseInt_1: "ParseInt ''1'' = Some 1"
  by (simp add: ParseInt_def ParseUint_def digitVal_def isDigit_def)

lemma ParseInt_2: "ParseInt ''2'' = Some 2"
  by (simp add: ParseInt_def ParseUint_def digitVal_def isDigit_def)

lemma unmarshal_bitcoin:
  "unmarshalPtr (=) tickerTags setTickerField zeroTicker bitcoinJSON = Inr (Some bitcoin)"
  by (simp add: unmarshalPtr_def bitcoinJSON_def findField_def tickerTags_def setTickerField_def
      storeString_def storeIntQuoted_def ParseInt_1 isDigit_def zeroTicker_def bitcoin_def)

lemma Itoa_examples: "Itoa 0 = ''0''" "Itoa 100 = ''100''" "Itoa (- 5) = ''-5''"
  by (simp_all add: Itoa_def natDigits.simps digitChar_def)

section \<open>The single-ticker lookup checks the cardinality of the answer\<close>

text \<open>
  Claim C1. When the body of the single-ticker endpoint scans as a JSON array whose elements
  all decode as tickers, \<open>Ticker\<close> returns the error \<open>unexpected error retreiving ticker\<close>
  and a nil record whenever the array does not have exactly one element (so for \<open>[]\<close> and
  for two or more elements), and returns the one decoded record and no error when it has
  exactly one. The decoded slice has one element per array element.
\<close>

theorem Ticker_cardinality:
  assumes "http_NewRequest env ''GET'' (TickerURL cli ident) = Inr req"
    and "http_Do env (httpClient cli) req w = (Inr body, w')"
    and "json_scan env body = Inr (JArray xs)"
    and "mapE (unmarshalPtr (json_equalFold env) tickerTags setTickerField zeroTicker) xs = Inr ts"
  shows "length ts = length xs
    \<and> (length xs \<noteq> 1 \<longrightarrow> Ticker env cli ident w = ((None, Some UnexpectedTicker), w'))
    \<and> (length xs = 1 \<longrightarrow> (\<exists>t. ts = [t] \<and> Ticker env cli ident w = ((t, None), w')))"
proof -
  have l: "length ts = length xs"
    using assms(4) by (rule mapE_length)
  have d: "json_Decode_Tickers env body = Inr (Some ts)"
    using assms(3,4) by (simp add: json_Decode_Tickers_def unmarshalTickers_def unmarshalSlice_def)
  have "length xs \<noteq> 1 \<longrightarrow> Ticker env cli ident w = ((None, Some UnexpectedTicker), w')"
    using assms(1,2) d l by (simp add: Ticker_def)
  moreover have "length xs = 1 \<longrightarrow> (\<exists>t. ts = [t] \<and> Ticker env cli ident w = ((t, None), w'))"
  proof
    assume "length xs = 1"
    with l obtain t where t: "ts = [t]"
      by (cases ts) auto
    with assms(1,2) d have "Ticker env cli ident w = ((t, None), w')"
      by (simp add: Ticker_def)
    with t show "\<exists>t. ts = [t] \<and> Ticker env cli ident w = ((t, None), w')"
      by blast
  qed
  ultimately show ?thesis using l by blast
qed

text \<open>The claim at the bodies \<open>[]\<close>, \<open>[bitcoin, bitcoin]\<close> and \<open>[bitcoin]\<close>.\<close>

theorem Ticker_cardinality_witness:
  "Ticker (fx_env (Inr (JSONBody (JArray [])))) fx_cli ''bitcoin'' []
     = ((None, Some UnexpectedTicker), [fx_ticker_request])
   \<and> Ticker (fx_env (Inr (JSONBody (JArray [bitcoinJSON, bitcoinJSON])))) fx_cli ''bitcoin'' []
     = ((None, Some UnexpectedTicker), [fx_ticker_request])
   \<and> Ticker (fx_env (Inr (JSONBody (JArray [bitcoinJSON])))) fx_cli ''bitcoin'' []
     = ((Some bitcoin, None), [fx_ticker_request])"
proof -
  have s: "\<And>v. json_scan (fx_env (Inr (JSONBody v))) (JSONBody v) = Inr v"
    by (simp add: fx_env_simps)
  have m0: "mapE (unmarshalPtr (json_equalFold (fx_env (Inr (JSONBody (JArray [])))))
      tickerTags setTickerField zeroTicker) [] = Inr []"
    by simp
  have m1: "mapE (unmarshalPtr (json_equalFold (fx_env (Inr (JSONBody (JArray [bitcoinJSON])))))
      tickerTags setTickerField zeroTicker) [bitcoinJSON] = Inr [Some bitcoin]"
    by (simp add: fx_env_simps unmarshal_bitcoin)
  have m2: "mapE
      (unmarshalPtr (json_equalFold (fx_env (Inr (JSONBody (JArray [bitcoinJSON, bitcoinJSON])))))
        tickerTags setTickerField zeroTicker) [bitcoinJSON, bitcoinJSON]
      = Inr [Some bitcoin, Some bitcoin]"
    by (simp add: fx_env_simps unmarshal_bitcoin)
  show ?thesis
    using Ticker_cardinality [OF fx_requests(4) fx_Do s m0]
      Ticker_cardinality [OF fx_requests(4) fx_Do s m1]
      Ticker_cardinality [OF fx_requests(4) fx_Do s m2]
    by simp
qed

section \<open>Decoding a ticker object\<close>

text \<open>
  Storing the members of a valid ticker object one after the other yields the record that
  reads each field from the member bound to its tag: a member whose key belongs to no field
  is skipped, and a member bound to a tag is stored into that tag's field, which no later
  member touches because the keys are distinct.
\<close>

lemma memberStr_Cons_eq: "memberStr ((k, JString s) # kvs) k d = s"
  by (simp add: memberStr_def)

lemma memberStr_Cons_neq: "k \<noteq> g \<Longrightarrow> memberStr ((k, v) # kvs) g d = memberStr kvs g d"
  by (simp add: memberStr_def)

lemma memberInt_Cons_eq: "ParseInt s = Some n \<Longrightarrow> memberInt ((k, JString s) # kvs) k d = n"
  by (simp add: memberInt_def)

lemma memberInt_Cons_neq: "k \<noteq> g \<Longrightarrow> memberInt ((k, v) # kvs) g d = memberInt kvs g d"
  by (simp add: memberInt_def)

lemmas member_Cons = memberStr_Cons_eq memberStr_Cons_neq memberInt_Cons_eq memberInt_Cons_neq

lemma map_of_absent: "k \<notin> fst ` set kvs \<Longrightarrow> map_of kvs k = None"
  by (simp add: map_of_eq_None_iff)

lemma memberStr_absent: "k \<notin> fst ` set kvs \<Longrightarrow> memberStr kvs k d = d"
  by (simp add: memberStr_def map_of_absent)

lemma memberInt_absent: "k \<notin> fst ` set kvs \<Longrightarrow> memberInt kvs k d = d"
  by (simp add: memberInt_def map_of_absent)

lemma spec_ticker_from_Nil: "spec_ticker_from [] t = t"
  by (simp add: spec_ticker_from_def memberStr_def memberInt_def)

lemma storeIntQuoted_quotedInt:
  assumes "quotedInt s"
  shows "\<exists>n. ParseInt s = Some n \<and> storeIntQuoted (JString s) old = Inr n"
proof -
  from assms obtain n where n: "ParseInt s = Some n"
    by (auto simp: quotedInt_def)
  from assms have "s \<noteq> ''null''"
    by (auto simp: quotedInt_def isDigit_def)
  with assms n show ?thesis
    by (simp add: storeIntQuoted_def quotedInt_def)
qed

lemma spec_ticker_from_skip:
  assumes "k \<notin> set tickerTags"
  shows "spec_ticker_from ((k, v) # kvs) t = spec_ticker_from kvs t"
  using assms by (simp add: spec_ticker_from_def member_Cons tickerTags_def)

lemma store_ticker_member:
  assumes "k \<in> set tickerTags" and "validTickerMember eqf (k, v)" and "k \<notin> fst ` set kvs"
  shows "\<exists>t'. setTickerField k v t = Inr t'
    \<and> spec_ticker_from kvs t' = spec_ticker_from ((k, v) # kvs) t"
proof -
  from assms(1,2) obtain s where v: "v = JString s" and q: "k = ''rank'' \<longrightarrow> quotedInt s"
    by (auto simp: validTickerMember_def split: json.splits if_splits)
  show ?thesis
  proof (cases "k = ''rank''")
    case True
    with q storeIntQuoted_quotedInt [of s "Rank t"] obtain n where
      n: "ParseInt s = Some n" "storeIntQuoted (JString s) (Rank t) = Inr n"
      by blast
    from True assms(3) have a: "memberInt kvs ''rank'' n = n"
      by (simp add: memberInt_absent)
    from True v n a show ?thesis
      by (simp add: setTickerField_def spec_ticker_from_def member_Cons)
  next
    case False
    have "\<forall>k \<in> set tickerTags. k \<noteq> ''rank'' \<longrightarrow> k \<notin> fst ` set kvs \<longrightarrow>
        (\<exists>t'. setTickerField k (JString s) t = Inr t'
          \<and> spec_ticker_from kvs t' = spec_ticker_from ((k, JString s) # kvs) t)"
      unfolding tickerTags_def
      by (simp add: setTickerField_def storeString_def spec_ticker_from_def member_Cons
          memberStr_absent)
    from this [rule_format, OF assms(1) False assms(3)] v show ?thesis
      by simp
  qed
qed

lemma storeFields_ticker:
  assumes "distinct (map fst kvs)" and "list_all (validTickerMember eqf) kvs"
  shows "storeFields eqf tickerTags setTickerField kvs t = Inr (spec_ticker_from kvs t)"
  using assms
proof (induction kvs arbitrary: t)
  case Nil
  show ?case by (simp add: spec_ticker_from_Nil)
next
  case (Cons kv kvs)
  obtain k v where kv: "kv = (k, v)" by (cases kv)
  from Cons.prems kv have d: "k \<notin> fst ` set kvs" "distinct (map fst kvs)"
    and val: "validTickerMember eqf (k, v)" "list_all (validTickerMember eqf) kvs"
    by simp_all
  note ih = Cons.IH [OF d(2) val(2)]
  show ?case
  proof (cases "k \<in> set tickerTags")
    case True
    then have f: "findField eqf tickerTags k = Some k"
      by (simp add: findField_def)
    from store_ticker_member [OF True val(1) d(1), of t] obtain t' where
      t': "setTickerField k v t = Inr t'"
      "spec_ticker_from kvs t' = spec_ticker_from ((k, v) # kvs) t"
      by blast
    from f t' ih [of t'] kv show ?thesis by simp
  next
    case False
    with val(1) have "findField eqf tickerTags k = None"
      by (simp add: validTickerMember_def findField_def)
    with ih [of t] kv spec_ticker_from_skip [OF False, of v kvs t] show ?thesis by simp
  qed
qed

lemma unmarshal_valid_ticker:
  assumes "validTickerObject eqf v"
  shows "unmarshalPtr eqf tickerTags setTickerField zeroTicker v = Inr (Some (spec_ticker_of v))"
proof -
  from assms obtain kvs where v: "v = JObject kvs"
    and d: "distinct (map fst kvs)" and l: "list_all (validTickerMember eqf) kvs"
    by (auto simp: validTickerObject_def split: json.splits)
  from storeFields_ticker [OF d l, of zeroTicker] v show ?thesis
    by (simp add: unmarshalPtr_def spec_ticker_of_def)
qed

lemma valid_fixture_objects:
  "validTickerObject (=) bitcoinJSON"
  "validTickerObject (=) ethereumJSON"
  by (simp_all add: validTickerObject_def validTickerMember_def bitcoinJSON_def ethereumJSON_def
      tickerTags_def quotedInt_def isDigit_def ParseInt_1 ParseInt_2)

lemma spec_fixture_objects:
  "spec_ticker_of bitcoinJSON = bitcoin"
  "spec_ticker_of ethereumJSON = ethereum"
  by (simp_all add: spec_ticker_of_def spec_ticker_from_def bitcoinJSON_def ethereumJSON_def
      bitcoin_def ethereum_def memberStr_def memberInt_def ParseInt_1 ParseInt_2)

lemma unmarshal_valid_tickers:
  assumes "\<forall>v \<in> set objs. validTickerObject eqf v"
  shows "unmarshalTickers eqf (JArray objs) = Inr (Some (map (\<lambda>v. Some (spec_ticker_of v)) objs))"
proof -
  have "mapE (unmarshalPtr eqf tickerTags setTickerField zeroTicker) objs
      = Inr (map (\<lambda>v. Some (spec_ticker_of v)) objs)"
    using assms by (induction objs) (simp_all add: unmarshal_valid_ticker)
  then show ?thesis
    by (simp add: unmarshalTickers_def unmarshalSlice_def)
qed

text \<open>
  Claim C2. When the body scans as an array of valid ticker objects, \<open>Tickers\<close> returns,
  in order, the records whose string fields are the strings bound to their tags in the
  object, unchanged, and whose \<open>Rank\<close> is the integer parse of the string bound to
  \<open>rank\<close> (\<open>spec_ticker_of\<close>); \<open>Ticker\<close> returns that record for a one-element array.
\<close>

theorem Tickers_fields_verbatim:
  assumes "json_scan env body = Inr (JArray objs)"
    and "\<forall>v \<in> set objs. validTickerObject (json_equalFold env) v"
    and "http_NewRequest env ''GET'' (TickersURL cli opts) = Inr reqT"
    and "http_Do env (httpClient cli) reqT w = (Inr body, wT)"
    and "http_NewRequest env ''GET'' (TickerURL cli ident) = Inr reqS"
    and "http_Do env (httpClient cli) reqS w = (Inr body, wS)"
  shows "Tickers env cli opts w = ((Some (map (\<lambda>v. Some (spec_ticker_of v)) objs), None), wT)
    \<and> (\<forall>v. objs = [v] \<longrightarrow> Ticker env cli ident w = ((Some (spec_ticker_of v), None), wS))"
proof -
  have d: "json_Decode_Tickers env body = Inr (Some (map (\<lambda>v. Some (spec_ticker_of v)) objs))"
    using assms(1) unmarshal_valid_tickers [OF assms(2)] by (simp add: json_Decode_Tickers_def)
  have "Tickers env cli opts w = ((Some (map (\<lambda>v. Some (spec_ticker_of v)) objs), None), wT)"
    using assms(3,4) d by (simp add: Tickers_def)
  moreover have "\<forall>v. objs = [v] \<longrightarrow> Ticker env cli ident w = ((Some (spec_ticker_of v), None), wS)"
    using assms(5,6) d by (simp add: Ticker_def)
  ultimately show ?thesis by blast
qed

text \<open>The body of \<open>TestTickers\<close>, and its first object alone for \<open>Ticker\<close>.\<close>

theorem Tickers_fields_verbatim_witness:
  "Tickers (fx_env (Inr (JSONBody (JArray [bitcoinJSON, ethereumJSON])))) fx_cli None []
     = ((Some [Some bitcoin, Some ethereum], None), [fx_tickers_request])
   \<and> Ticker (fx_env (Inr (JSONBody (JArray [bitcoinJSON])))) fx_cli ''bitcoin'' []
     = ((Some bitcoin, None), [fx_ticker_request])"
proof -
  have s: "\<And>v. json_scan (fx_env (Inr (JSONBody v))) (JSONBody v) = Inr v"
    by (simp add: fx_env_simps)
  have v2: "\<forall>v \<in> set [bitcoinJSON, ethereumJSON].
      validTickerObject (json_equalFold (fx_env (Inr (JSONBody (JArray [bitcoinJSON, ethereumJSON]))))) v"
    by (simp add: fx_env_simps valid_fixture_objects)
  have v1: "\<forall>v \<in> set [bitcoinJSON].
      validTickerObject (json_equalFold (fx_env (Inr (JSONBody (JArray [bitcoinJSON]))))) v"
    by (simp add: fx_env_simps valid_fixture_objects)
  from Tickers_fields_verbatim [OF s v2 fx_requests(3) fx_Do fx_requests(4) fx_Do]
  have a: "Tickers (fx_env (Inr (JSONBody (JArray [bitcoinJSON, ethereumJSON])))) fx_cli None []
     = ((Some [Some bitcoin, Some ethereum], None), [fx_tickers_request])"
    by (simp add: spec_fixture_objects)
  from Tickers_fields_verbatim [OF s v1 fx_requests(3) fx_Do fx_requests(4) fx_Do]
  have b: "Ticker (fx_env (Inr (JSONBody (JArray [bitcoinJSON])))) fx_cli ''bitcoin'' []
     = ((Some bitcoin, None), [fx_ticker_request])"
    by (simp add: spec_fixture_objects)
  from a b show ?thesis by simp
qed

section \<open>The query string of the ticker listing\<close>

lemma digitChar_unreserved: "d < 10 \<Longrightarrow> escapeByte (digitChar d) = [digitChar d]"
proof -
  assume "d < 10"
  then consider "d = 0" | "d = 1" | "d = 2" | "d = 3" | "d = 4" | "d = 5" | "d = 6" | "d = 7"
    | "d = 8" | "d = 9" by atomize_elim arith
  then show ?thesis
    by cases (simp_all add: digitChar_def escapeByte_def shouldEscape_def isAlnum_def)
qed

lemma QueryEscape_natDigits: "QueryEscape (natDigits n) = natDigits n"
proof (induction n rule: natDigits.induct)
  case (1 n)
  show ?case
  proof (cases "n < 10")
    case True
    then show ?thesis
      by (subst (1 2) natDigits.simps) (simp add: QueryEscape_def digitChar_unreserved)
  next
    case False
    with 1 have ih: "QueryEscape (natDigits (n div 10)) = natDigits (n div 10)" by simp
    have "n mod 10 < 10" by simp
    then have "escapeByte (digitChar (n mod 10)) = [digitChar (n mod 10)]"
      by (rule digitChar_unreserved)
    with ih False show ?thesis
      by (subst (1 2) natDigits.simps) (simp add: QueryEscape_def)
  qed
qed

lemma QueryEscape_Itoa: "QueryEscape (Itoa i) = Itoa i"
proof -
  have "QueryEscape (CHR ''-'' # s) = CHR ''-'' # QueryEscape s" for s
    by (simp add: QueryEscape_def escapeByte_def shouldEscape_def)
  then show ?thesis
    by (simp add: Itoa_def QueryEscape_natDigits)
qed

lemma Values_Encode_start_limit:
  "Values_Encode [(''start'', [a]), (''limit'', [b])]
     = ''limit='' @ QueryEscape b @ ''&start='' @ QueryEscape a"
proof -
  have k: "QueryEscape ''limit'' = ''limit''" "QueryEscape ''start'' = ''start''"
    by (simp_all add: QueryEscape_def escapeByte_def shouldEscape_def isAlnum_def)
  show ?thesis
    by (simp add: Values_Encode_def k)
qed

text \<open>
  Claim C8. \<open>Tickers\<close> requests \<open>{apiAddr}/ticker\<close> with nothing appended when the options
  are nil, and with the query string \<open>?limit=<Limit>&start=<Start>\<close> (the two integers in
  decimal, the keys in the sorted order of \<open>Values.Encode\<close>) when options are supplied. The
  request that reaches the transport carries exactly this URL.
\<close>

theorem Tickers_query_parameters:
  "TickersURL cli None = apiAddr cli @ ''/ticker''
   \<and> TickersURL cli (Some opt)
       = apiAddr cli @ ''/ticker?limit='' @ Itoa (Limit opt) @ ''&start='' @ Itoa (Start opt)
   \<and> snd (Tickers env cli opts w)
       = (case http_NewRequest_err env ''GET'' (TickersURL cli opts) of
            Some err \<Rightarrow> w
          | None \<Rightarrow> snd (http_Do env (httpClient cli)
                          \<lparr>Method = ''GET'', URL = TickersURL cli opts\<rparr> w))"
proof -
  have a: "TickersURL cli None = apiAddr cli @ ''/ticker''"
    by (simp add: TickersURL_def)
  have b: "TickersURL cli (Some opt)
       = apiAddr cli @ ''/ticker?limit='' @ Itoa (Limit opt) @ ''&start='' @ Itoa (Start opt)"
    by (simp add: TickersURL_def Values_Encode_start_limit QueryEscape_Itoa)
  have c: "snd (Tickers env cli opts w)
       = (case http_NewRequest_err env ''GET'' (TickersURL cli opts) of
            Some err \<Rightarrow> w
          | None \<Rightarrow> snd (http_Do env (httpClient cli)
                          \<lparr>Method = ''GET'', URL = TickersURL cli opts\<rparr> w))"
    by (simp add: Tickers_def http_NewRequest_def split: option.split sum.split prod.split)
  from a b c show ?thesis by simp
qed

text \<open>The claim at the default client, without options and with \<open>Start = 0\<close>, \<open>Limit = 100\<close>.\<close>

theorem Tickers_query_parameters_witness:
  "TickersURL fx_cli None = ''https://api.coinmarketcap.com/v1/ticker''
   \<and> TickersURL fx_cli (Some \<lparr>Start = 0, Limit = 100\<rparr>)
       = ''https://api.coinmarketcap.com/v1/ticker?limit=100&start=0''
   \<and> snd (Tickers (fx_env (Inr (JSONBody (JArray [])))) fx_cli (Some \<lparr>Start = 0, Limit = 100\<rparr>) [])
       = [\<lparr>Method = ''GET'', URL = ''https://api.coinmarketcap.com/v1/ticker?limit=100&start=0''\<rparr>]"
  using Tickers_query_parameters [of fx_cli "\<lparr>Start = 0, Limit = 100\<rparr>"
      "fx_env (Inr (JSONBody (JArray [])))" "Some \<lparr>Start = 0, Limit = 100\<rparr>" "[]"]
  by (simp add: fx_default_cli Itoa_examples fx_env_def)

section \<open>Scraping: from table rows to records\<close>

text \<open>
  The two loops append one record per decoded row; \<open>clean\<close> keeps every character but the
  comma; an array of \<open>k\<close> strings is decoded from exactly \<open>k\<close> nodes.
\<close>

lemma Prices_loop_eq: "Prices_loop ps acc = acc @ map (\<lambda>p. Some (mkPrice p)) ps"
  by (induction ps arbitrary: acc) simp_all

lemma Markets_loop_eq: "Markets_loop ms acc = acc @ map (\<lambda>m. Some (mkMarket m)) ms"
  by (induction ms arbitrary: acc) simp_all

lemma clean_filter: "clean s = filter (\<lambda>c. c \<noteq> CHR '','') s"
  by (induction s) simp_all

lemma array6_of_length: "length xs = 6 \<Longrightarrow>
  array6_of xs = Some (Array6 (xs ! 0) (xs ! 1) (xs ! 2) (xs ! 3) (xs ! 4) (xs ! 5))"
  by (cases xs rule: array6_of.cases) simp_all

lemma array6_of_None: "length xs \<noteq> 6 \<Longrightarrow> array6_of xs = None"
  by (cases xs rule: array6_of.cases) simp_all

lemma array3_of_length: "length xs = 3 \<Longrightarrow> array3_of xs = Some (Array3 (xs ! 0) (xs ! 1) (xs ! 2))"
  by (cases xs rule: array3_of.cases) simp_all

lemma array3_of_None: "length xs \<noteq> 3 \<Longrightarrow> array3_of xs = None"
  by (cases xs rule: array3_of.cases) simp_all

lemma array2_of_length: "length xs = 2 \<Longrightarrow> array2_of xs = Some (Array2 (xs ! 0) (xs ! 1))"
  by (cases xs rule: array2_of.cases) simp_all

lemma array2_of_None: "length xs \<noteq> 2 \<Longrightarrow> array2_of xs = None"
  by (cases xs rule: array2_of.cases) simp_all

lemma pricesQ_row_ok:
  assumes "priceRowOK env tr"
  shows "\<exists>r. unmarshal_pricesQ_row env tr = Inr r \<and> mkPrice r = spec_price_of env tr"
proof -
  let ?cells = "html_find env ''[data-format-value]'' tr"
  have "length (map (\<lambda>n. html_text env [n]) ?cells) = 6"
    using assms by (simp add: priceRowOK_def)
  from array6_of_length [OF this] assms show ?thesis
    by (simp add: unmarshal_pricesQ_row_def mkPrice_def spec_price_of_def clean_filter
        priceRowOK_def Let_def)
qed

lemma pricesQ_row_err:
  assumes "\<not> priceRowOK env tr"
  shows "unmarshal_pricesQ_row env tr = Inl GoqCannotUnmarshal"
proof -
  have "length (map (\<lambda>n. html_text env [n]) (html_find env ''[data-format-value]'' tr)) \<noteq> 6"
    using assms by (simp add: priceRowOK_def)
  from array6_of_None [OF this] show ?thesis
    by (simp add: unmarshal_pricesQ_row_def)
qed

lemma marketsQ_row_ok:
  assumes "marketRowOK env tr"
  shows "\<exists>r. unmarshal_marketsQ_row env tr = Inr r \<and> mkMarket r = spec_market_of env tr"
proof -
  have a: "length (map (\<lambda>n. html_text env [n]) (html_find env ''td a'' tr)) = 2"
    and b: "length (map (\<lambda>n. html_text env [n]) (html_find env ''td span'' tr)) = 3"
    using assms by (simp_all add: marketRowOK_def)
  from array2_of_length [OF a] array3_of_length [OF b] assms show ?thesis
    by (simp add: unmarshal_marketsQ_row_def mkMarket_def spec_market_of_def marketRowOK_def
        Let_def)
qed

lemma marketsQ_row_err:
  assumes "\<not> marketRowOK env tr"
  shows "unmarshal_marketsQ_row env tr = Inl GoqCannotUnmarshal"
proof (cases "length (html_find env ''td a'' tr) = 2")
  case True
  with assms have "length (map (\<lambda>n. html_text env [n]) (html_find env ''td span'' tr)) \<noteq> 3"
    by (simp add: marketRowOK_def)
  from array3_of_None [OF this] show ?thesis
    by (simp add: unmarshal_marketsQ_row_def split: option.split)
next
  case False
  then have "length (map (\<lambda>n. html_text env [n]) (html_find env ''td a'' tr)) \<noteq> 2"
    by simp
  from array2_of_None [OF this] show ?thesis
    by (simp add: unmarshal_marketsQ_row_def)
qed

lemma goq_Decode_pricesQ_ok:
  assumes "html_parse env body = Inr root"
    and "\<forall>tr \<in> set (html_find env ''tbody tr'' root). priceRowOK env tr"
  shows "\<exists>q. goq_Decode_pricesQ env body = Inr q
    \<and> map mkPrice (Prices_q q) = map (spec_price_of env) (html_find env ''tbody tr'' root)"
proof -
  from assms(2) have "\<And>tr. tr \<in> set (html_find env ''tbody tr'' root) \<Longrightarrow>
      \<exists>r. unmarshal_pricesQ_row env tr = Inr r \<and> mkPrice r = spec_price_of env tr"
    by (simp add: pricesQ_row_ok)
  from mapE_rows_ok [of "html_find env ''tbody tr'' root" "unmarshal_pricesQ_row env" mkPrice
      "spec_price_of env", OF this]
  obtain rs where "mapE (unmarshal_pricesQ_row env) (html_find env ''tbody tr'' root) = Inr rs"
    and "map mkPrice rs = map (spec_price_of env) (html_find env ''tbody tr'' root)"
    by blast
  with assms(1) show ?thesis
    by (simp add: goq_Decode_pricesQ_def)
qed

lemma goq_Decode_pricesQ_err:
  assumes "html_parse env body = Inr root"
    and "tr \<in> set (html_find env ''tbody tr'' root)" and "\<not> priceRowOK env tr"
  shows "goq_Decode_pricesQ env body = Inl GoqCannotUnmarshal"
proof -
  have "mapE (unmarshal_pricesQ_row env) (html_find env ''tbody tr'' root) = Inl GoqCannotUnmarshal"
  proof (rule mapE_rows_err [OF assms(2)])
    fix x
    show "unmarshal_pricesQ_row env x = Inl GoqCannotUnmarshal
        \<or> (\<exists>r. unmarshal_pricesQ_row env x = Inr r)"
      using pricesQ_row_ok [of env x] pricesQ_row_err [of env x] by blast
  next
    show "unmarshal_pricesQ_row env tr = Inl GoqCannotUnmarshal"
      using assms(3) by (rule pricesQ_row_err)
  qed
  with assms(1) show ?thesis
    by (simp add: goq_Decode_pricesQ_def)
qed

lemma goq_Decode_marketsQ_ok:
  assumes "html_parse env body = Inr root"
    and "\<forall>tr \<in> set (html_find env ''tbody tr'' root). marketRowOK env tr"
  shows "\<exists>q. goq_Decode_marketsQ env body = Inr q
    \<and> map mkMarket (Markets_q q) = map (spec_market_of env) (html_find env ''tbody tr'' root)"
proof -
  from assms(2) have "\<And>tr. tr \<in> set (html_find env ''tbody tr'' root) \<Longrightarrow>
      \<exists>r. unmarshal_marketsQ_row env tr = Inr r \<and> mkMarket r = spec_market_of env tr"
    by (simp add: marketsQ_row_ok)
  from mapE_rows_ok [of "html_find env ''tbody tr'' root" "unmarshal_marketsQ_row env" mkMarket
      "spec_market_of env", OF this]
  obtain rs where "mapE (unmarshal_marketsQ_row env) (html_find env ''tbody tr'' root) = Inr rs"
    and "map mkMarket rs = map (spec_market_of env) (html_find env ''tbody tr'' root)"
    by blast
  with assms(1) show ?thesis
    by (simp add: goq_Decode_marketsQ_def)
qed

lemma goq_Decode_marketsQ_err:
  assumes "html_parse env body = Inr root"
    and "tr \<in> set (html_find env ''tbody tr'' root)" and "\<not> marketRowOK env tr"
  shows "goq_Decode_marketsQ env body = Inl GoqCannotUnmarshal"
proof -
  have "mapE (unmarshal_marketsQ_row env) (html_find env ''tbody tr'' root) = Inl GoqCannotUnmarshal"
  proof (rule mapE_rows_err [OF assms(2)])
    fix x
    show "unmarshal_marketsQ_row env x = Inl GoqCannotUnmarshal
        \<or> (\<exists>r. unmarshal_marketsQ_row env x = Inr r)"
      using marketsQ_row_ok [of env x] marketsQ_row_err [of env x] by blast
  next
    show "unmarshal_marketsQ_row env tr = Inl GoqCannotUnmarshal"
      using assms(3) by (rule marketsQ_row_err)
  qed
  with assms(1) show ?thesis
    by (simp add: goq_Decode_marketsQ_def)
qed

lemma Prices_rows_ok:
  assumes "http_NewRequest env ''GET'' (PricesURL cli ident opts) = Inr req"
    and "http_Do env (httpClient cli) req w = (Inr body, w')"
    and "html_parse env body = Inr root"
    and "\<forall>tr \<in> set (html_find env ''tbody tr'' root). priceRowOK env tr"
  shows "Prices env cli ident opts w
    = ((Some (map (\<lambda>tr. Some (spec_price_of env tr)) (html_find env ''tbody tr'' root)), None), w')"
proof -
  from goq_Decode_pricesQ_ok [OF assms(3,4)] obtain q where
    q: "goq_Decode_pricesQ env body = Inr q"
    "map mkPrice (Prices_q q) = map (spec_price_of env) (html_find env ''tbody tr'' root)"
    by blast
  have "map (\<lambda>p. Some (mkPrice p)) (Prices_q q) = map Some (map mkPrice (Prices_q q))"
    by simp
  also have "\<dots> = map (\<lambda>tr. Some (spec_price_of env tr)) (html_find env ''tbody tr'' root)"
    by (simp add: q(2))
  finally show ?thesis
    using assms(1,2) q(1) by (simp add: Prices_def Prices_loop_eq)
qed

lemma Prices_rows_err:
  assumes "http_NewRequest env ''GET'' (PricesURL cli ident opts) = Inr req"
    and "http_Do env (httpClient cli) req w = (Inr body, w')"
    and "html_parse env body = Inr root"
    and "tr \<in> set (html_find env ''tbody tr'' root)" and "\<not> priceRowOK env tr"
  shows "Prices env cli ident opts w = ((None, Some GoqCannotUnmarshal), w')"
  using assms(1,2) goq_Decode_pricesQ_err [OF assms(3,4,5)] by (simp add: Prices_def)

lemma Markets_rows_ok:
  assumes "http_NewRequest env ''GET'' (MarketsURL cli ident) = Inr req"
    and "http_Do env (httpClient cli) req w = (Inr body, w')"
    and "html_parse env body = Inr root"
    and "\<forall>tr \<in> set (html_find env ''tbody tr'' root). marketRowOK env tr"
  shows "Markets env cli ident w
    = ((Some (map (\<lambda>tr. Some (spec_market_of env tr)) (html_find env ''tbody tr'' root)), None), w')"
proof -
  from goq_Decode_marketsQ_ok [OF assms(3,4)] obtain q where
    q: "goq_Decode_marketsQ env body = Inr q"
    "map mkMarket (Markets_q q) = map (spec_market_of env) (html_find env ''tbody tr'' root)"
    by blast
  have "map (\<lambda>p. Some (mkMarket p)) (Markets_q q) = map Some (map mkMarket (Markets_q q))"
    by simp
  also have "\<dots> = map (\<lambda>tr. Some (spec_market_of env tr)) (html_find env ''tbody tr'' root)"
    by (simp add: q(2))
  finally show ?thesis
    using assms(1,2) q(1) by (simp add: Markets_def Markets_loop_eq)
qed

lemma Markets_rows_err:
  assumes "http_NewRequest env ''GET'' (MarketsURL cli ident) = Inr req"
    and "http_Do env (httpClient cli) req w = (Inr body, w')"
    and "html_parse env body = Inr root"
    and "tr \<in> set (html_find env ''tbody tr'' root)" and "\<not> marketRowOK env tr"
  shows "Markets env cli ident w = ((None, Some GoqCannotUnmarshal), w')"
  using assms(1,2) goq_Decode_marketsQ_err [OF assms(3,4,5)] by (simp add: Markets_def)

text \<open>
  Claim C4. For a historical-data document whose rows each carry six value cells, \<open>Prices\<close>
  returns exactly one \<open>Price\<close> per matched table row, in document order: \<open>Date\<close> is the
  text of the row's date cell, and \<open>OpenUSD\<close>, \<open>HighUSD\<close>, \<open>LowUSD\<close>, \<open>CloseUSD\<close>,
  \<open>VolumeUSD24hr\<close>, \<open>MarketCapUSD\<close> are the cleaned texts of the first to the sixth value
  cell.
\<close>

theorem Prices_one_record_per_row:
  assumes "http_NewRequest env ''GET'' (PricesURL cli ident opts) = Inr req"
    and "http_Do env (httpClient cli) req w = (Inr body, w')"
    and "html_parse env body = Inr root"
    and "\<forall>tr \<in> set (html_find env ''tbody tr'' root). priceRowOK env tr"
  shows "Prices env cli ident opts w =
    ((Some (map (\<lambda>tr. Some
        \<lparr>Date = html_text env (html_find env ''td.text-left'' tr),
         OpenUSD = clean (html_text env [html_find env ''[data-format-value]'' tr ! 0]),
         HighUSD = clean (html_text env [html_find env ''[data-format-value]'' tr ! 1]),
         LowUSD = clean (html_text env [html_find env ''[data-format-value]'' tr ! 2]),
         CloseUSD = clean (html_text env [html_find env ''[data-format-value]'' tr ! 3]),
         VolumeUSD24hr_p = clean (html_text env [html_find env ''[data-format-value]'' tr ! 4]),
         MarketCapUSD_p = clean (html_text env [html_find env ''[data-format-value]'' tr ! 5])\<rparr>)
       (html_find env ''tbody tr'' root)), None), w')"
  using Prices_rows_ok [OF assms] by (simp add: spec_price_of_def clean_filter Let_def)

text \<open>The claim at a page of two rows.\<close>

theorem Prices_one_record_per_row_witness:
  "Prices (fx_env (Inr (HTMLBody (Doc
      [PriceRow ''2020-01-02'' [''7,200.17'', ''7,254.33'', ''6,935.27'', ''6,985.47'',
         ''20,802,083,465'', ''126,699,395,235''],
       PriceRow ''2020-01-01'' [''7,194.89'', ''7,254.33'', ''7,174.94'', ''7,200.17'',
         ''18,565,664,997'', ''130,580,829,150'']])))) fx_cli ''bitcoin'' None []
   = ((Some
        [Some \<lparr>Date = ''2020-01-02'', OpenUSD = ''7200.17'', HighUSD = ''7254.33'',
           LowUSD = ''6935.27'', CloseUSD = ''6985.47'', VolumeUSD24hr_p = ''20802083465'',
           MarketCapUSD_p = ''126699395235''\<rparr>,
         Some \<lparr>Date = ''2020-01-01'', OpenUSD = ''7194.89'', HighUSD = ''7254.33'',
           LowUSD = ''7174.94'', CloseUSD = ''7200.17'', VolumeUSD24hr_p = ''18565664997'',
           MarketCapUSD_p = ''130580829150''\<rparr>], None), [fx_price_request])"
proof -
  let ?page = "Doc
      [PriceRow ''2020-01-02'' [''7,200.17'', ''7,254.33'', ''6,935.27'', ''6,985.47'',
         ''20,802,083,465'', ''126,699,395,235''],
       PriceRow ''2020-01-01'' [''7,194.89'', ''7,254.33'', ''7,174.94'', ''7,200.17'',
         ''18,565,664,997'', ''130,580,829,150'']]"
  let ?env = "fx_env (Inr (HTMLBody ?page))"
  have p: "html_parse ?env (HTMLBody ?page) = Inr ?page"
    by (simp add: fx_env_simps)
  have ok: "\<forall>tr \<in> set (html_find ?env ''tbody tr'' ?page). priceRowOK ?env tr"
    by (simp add: fx_env_simps fx_find_def priceRowOK_def)
  show ?thesis
    using Prices_one_record_per_row [OF fx_requests(1) fx_Do p ok]
    by (simp add: fx_env_simps fx_find_def fx_text_def)
qed

text \<open>
  Claim C3. Every one of the six value fields of every \<open>Price\<close> that \<open>Prices\<close> returns is the
  text of its cell with all commas removed and nothing else changed (\<open>spec_price_of\<close>), so no
  stored value contains a comma; the cell \<open>1,234.56\<close> is stored as \<open>1234.56\<close>.
\<close>

theorem Prices_strip_commas:
  assumes "http_NewRequest env ''GET'' (PricesURL cli ident opts) = Inr req"
    and "http_Do env (httpClient cli) req w = (Inr body, w')"
    and "html_parse env body = Inr root"
    and "\<forall>tr \<in> set (html_find env ''tbody tr'' root). priceRowOK env tr"
  shows "\<exists>ps. Prices env cli ident opts w = ((Some ps, None), w')
    \<and> ps = map (\<lambda>tr. Some (spec_price_of env tr)) (html_find env ''tbody tr'' root)
    \<and> (\<forall>p \<in> set ps. \<exists>x. p = Some x
          \<and> CHR '','' \<notin> set (OpenUSD x) \<and> CHR '','' \<notin> set (HighUSD x)
          \<and> CHR '','' \<notin> set (LowUSD x) \<and> CHR '','' \<notin> set (CloseUSD x)
          \<and> CHR '','' \<notin> set (VolumeUSD24hr_p x) \<and> CHR '','' \<notin> set (MarketCapUSD_p x))
    \<and> clean ''1,234.56'' = ''1234.56''"
proof -
  let ?ps = "map (\<lambda>tr. Some (spec_price_of env tr)) (html_find env ''tbody tr'' root)"
  have "\<forall>p \<in> set ?ps. \<exists>x. p = Some x
          \<and> CHR '','' \<notin> set (OpenUSD x) \<and> CHR '','' \<notin> set (HighUSD x)
          \<and> CHR '','' \<notin> set (LowUSD x) \<and> CHR '','' \<notin> set (CloseUSD x)
          \<and> CHR '','' \<notin> set (VolumeUSD24hr_p x) \<and> CHR '','' \<notin> set (MarketCapUSD_p x)"
    by (auto simp: spec_price_of_def Let_def)
  moreover have "clean ''1,234.56'' = ''1234.56''"
    by simp
  ultimately show ?thesis
    using Prices_rows_ok [OF assms] by blast
qed

text \<open>The single-row page with the cells \<open>2020-01-01\<close>, \<open>1,000\<close>, \<open>1,100\<close>, \<open>900\<close>,
  \<open>1,050\<close>, \<open>500,000\<close>, \<open>1,000,000\<close>.\<close>

theorem Prices_strip_commas_witness:
  "Prices (fx_env (Inr (HTMLBody fx_price_page))) fx_cli ''bitcoin'' None []
   = ((Some [Some \<lparr>Date = ''2020-01-01'', OpenUSD = ''1000'', HighUSD = ''1100'',
        LowUSD = ''900'', CloseUSD = ''1050'', VolumeUSD24hr_p = ''500000'',
        MarketCapUSD_p = ''1000000''\<rparr>], None), [fx_price_request])"
proof -
  let ?env = "fx_env (Inr (HTMLBody fx_price_page))"
  have p: "html_parse ?env (HTMLBody fx_price_page) = Inr fx_price_page"
    by (simp add: fx_env_simps)
  have ok: "\<forall>tr \<in> set (html_find ?env ''tbody tr'' fx_price_page). priceRowOK ?env tr"
    by (simp add: fx_env_simps fx_find_def priceRowOK_def fx_price_page_def)
  show ?thesis
    using Prices_strip_commas [OF fx_requests(1) fx_Do p ok]
    by (simp add: fx_env_simps fx_find_def fx_text_def fx_price_page_def spec_price_of_def)
qed

text \<open>
  Claim C5. For a markets document whose rows each carry two links and three spans,
  \<open>Markets\<close> returns as many records as there are matched table rows, in document order:
  \<open>Source\<close> and \<open>Pair\<close> are the texts of the row's first and second link, and
  \<open>VolumeUSD24hr\<close>, \<open>PriceUSD\<close>, \<open>VolumePercentage\<close> the texts of its three further cells.
\<close>

theorem Markets_one_record_per_row:
  assumes "http_NewRequest env ''GET'' (MarketsURL cli ident) = Inr req"
    and "http_Do env (httpClient cli) req w = (Inr body, w')"
    and "html_parse env body = Inr root"
    and "\<forall>tr \<in> set (html_find env ''tbody tr'' root). marketRowOK env tr"
  shows "Markets env cli ident w =
    ((Some (map (\<lambda>tr. Some
        \<lparr>Source = html_text env [html_find env ''td a'' tr ! 0],
         Pair_m = html_text env [html_find env ''td a'' tr ! 1],
         VolumeUSD24hr_m = html_text env [html_find env ''td span'' tr ! 0],
         PriceUSD_m = html_text env [html_find env ''td span'' tr ! 1],
         VolumePercentage = html_text env [html_find env ''td span'' tr ! 2]\<rparr>)
       (html_find env ''tbody tr'' root)), None), w')
    \<and> len (fst (fst (Markets env cli ident w))) = length (html_find env ''tbody tr'' root)"
  using Markets_rows_ok [OF assms] by (simp add: spec_market_of_def Let_def)

text \<open>The claim at a page of two rows.\<close>

theorem Markets_one_record_per_row_witness:
  "Markets (fx_env (Inr (HTMLBody (Doc
      [MarketRow [''Bitfinex'', ''BTC/USD''] [''$72,855,700'', ''$573.14'', ''12.50%''],
       MarketRow [''Kraken'', ''BTC/EUR''] [''$24,085,900'', ''$572.90'', ''4.13%'']]))))
     fx_cli ''bitcoin'' []
   = ((Some
        [Some \<lparr>Source = ''Bitfinex'', Pair_m = ''BTC/USD'', VolumeUSD24hr_m = ''$72,855,700'',
           PriceUSD_m = ''$573.14'', VolumePercentage = ''12.50%''\<rparr>,
         Some \<lparr>Source = ''Kraken'', Pair_m = ''BTC/EUR'', VolumeUSD24hr_m = ''$24,085,900'',
           PriceUSD_m = ''$572.90'', VolumePercentage = ''4.13%''\<rparr>], None),
       [fx_market_request])"
proof -
  let ?page = "Doc
      [MarketRow [''Bitfinex'', ''BTC/USD''] [''$72,855,700'', ''$573.14'', ''12.50%''],
       MarketRow [''Kraken'', ''BTC/EUR''] [''$24,085,900'', ''$572.90'', ''4.13%'']]"
  let ?env = "fx_env (Inr (HTMLBody ?page))"
  have p: "html_parse ?env (HTMLBody ?page) = Inr ?page"
    by (simp add: fx_env_simps)
  have ok: "\<forall>tr \<in> set (html_find ?env ''tbody tr'' ?page). marketRowOK ?env tr"
    by (simp add: fx_env_simps fx_find_def marketRowOK_def)
  show ?thesis
    using Markets_one_record_per_row [OF fx_requests(2) fx_Do p ok]
    by (simp add: fx_env_simps fx_find_def fx_text_def)
qed

section \<open>A page without table rows\<close>

lemma Prices_fails_iff:
  assumes "http_NewRequest env ''GET'' (PricesURL cli ident opts) = Inr req"
    and "http_Do env (httpClient cli) req w = (Inr body, w')"
    and "html_parse env body = Inr root"
  shows "snd (fst (Prices env cli ident opts w)) \<noteq> None
    \<longleftrightarrow> (\<exists>tr \<in> set (html_find env ''tbody tr'' root). \<not> priceRowOK env tr)"
proof (cases "\<forall>tr \<in> set (html_find env ''tbody tr'' root). priceRowOK env tr")
  case True
  from Prices_rows_ok [OF assms True] True show ?thesis by simp
next
  case False
  then obtain tr where "tr \<in> set (html_find env ''tbody tr'' root)" "\<not> priceRowOK env tr"
    by blast
  from Prices_rows_err [OF assms this] False show ?thesis by simp
qed

lemma Markets_fails_iff:
  assumes "http_NewRequest env ''GET'' (MarketsURL cli ident) = Inr req"
    and "http_Do env (httpClient cli) req w = (Inr body, w')"
    and "html_parse env body = Inr root"
  shows "snd (fst (Markets env cli ident w)) \<noteq> None
    \<longleftrightarrow> (\<exists>tr \<in> set (html_find env ''tbody tr'' root). \<not> marketRowOK env tr)"
proof (cases "\<forall>tr \<in> set (html_find env ''tbody tr'' root). marketRowOK env tr")
  case True
  from Markets_rows_ok [OF assms True] True show ?thesis by simp
next
  case False
  then obtain tr where "tr \<in> set (html_find env ''tbody tr'' root)" "\<not> marketRowOK env tr"
    by blast
  from Markets_rows_err [OF assms this] False show ?thesis by simp
qed

lemma Prices_no_rows:
  assumes "http_NewRequest env ''GET'' (PricesURL cli ident opts) = Inr req"
    and "http_Do env (httpClient cli) req w = (Inr body, w')"
    and "html_parse env body = Inr root"
    and "html_find env ''tbody tr'' root = []"
  shows "Prices env cli ident opts w = ((Some [], None), w')"
  using assms by (simp add: Prices_def goq_Decode_pricesQ_def)

lemma Markets_no_rows:
  assumes "http_NewRequest env ''GET'' (MarketsURL cli ident) = Inr req"
    and "http_Do env (httpClient cli) req w = (Inr body, w')"
    and "html_parse env body = Inr root"
    and "html_find env ''tbody tr'' root = []"
  shows "Markets env cli ident w = ((Some [], None), w')"
  using assms by (simp add: Markets_def goq_Decode_marketsQ_def)

text \<open>
  Claim C7 says that \<open>Prices\<close> and \<open>Markets\<close> fail when no table row matches. They do not:
  on a document without any \<open>tbody tr\<close> both return an empty non-nil sequence and no error.
\<close>

theorem absent_table_is_empty_success_counterexample:
  "Prices (fx_env (Inr (HTMLBody (Doc [])))) fx_cli ''bitcoin'' None []
     = ((Some [], None), [fx_price_request])
   \<and> Markets (fx_env (Inr (HTMLBody (Doc [])))) fx_cli ''bitcoin'' []
     = ((Some [], None), [fx_market_request])
   \<and> html_find (fx_env (Inr (HTMLBody (Doc [])))) ''tbody tr'' (Doc []) = []"
  by (simp add: Prices_def Markets_def fx_requests goq_Decode_pricesQ_def
      goq_Decode_marketsQ_def fx_env_simps fx_find_def)

text \<open>
  Claim C7, amended. On a document in which no table row matches, \<open>Prices\<close> and \<open>Markets\<close>
  succeed with an empty non-nil sequence, which is also the answer for a range without
  data: the two are not distinguished. Once the document has been fetched and parsed, the
  operations fail exactly when some matched row does not carry the expected number of cells
  (six value cells; two links and three spans).
\<close>

theorem absent_table_is_empty_success:
  assumes "http_NewRequest env ''GET'' (PricesURL cli ident opts) = Inr reqP"
    and "http_Do env (httpClient cli) reqP w = (Inr bodyP, wP)"
    and "html_parse env bodyP = Inr rootP"
    and "http_NewRequest env ''GET'' (MarketsURL cli ident) = Inr reqM"
    and "http_Do env (httpClient cli) reqM w = (Inr bodyM, wM)"
    and "html_parse env bodyM = Inr rootM"
  shows "(html_find env ''tbody tr'' rootP = [] \<longrightarrow>
            Prices env cli ident opts w = ((Some [], None), wP))
    \<and> (html_find env ''tbody tr'' rootM = [] \<longrightarrow>
            Markets env cli ident w = ((Some [], None), wM))
    \<and> (snd (fst (Prices env cli ident opts w)) \<noteq> None
          \<longleftrightarrow> (\<exists>tr \<in> set (html_find env ''tbody tr'' rootP). \<not> priceRowOK env tr))
    \<and> (snd (fst (Markets env cli ident w)) \<noteq> None
          \<longleftrightarrow> (\<exists>tr \<in> set (html_find env ''tbody tr'' rootM). \<not> marketRowOK env tr))"
proof -
  have "html_find env ''tbody tr'' rootP = [] \<longrightarrow>
      Prices env cli ident opts w = ((Some [], None), wP)"
    using Prices_no_rows [OF assms(1,2,3)] by blast
  moreover have "html_find env ''tbody tr'' rootM = [] \<longrightarrow>
      Markets env cli ident w = ((Some [], None), wM)"
    using Markets_no_rows [OF assms(4,5,6)] by blast
  moreover note Prices_fails_iff [OF assms(1,2,3)] Markets_fails_iff [OF assms(4,5,6)]
  ultimately show ?thesis by blast
qed

text \<open>The amended claim at the empty document and at two pages with a short row.\<close>

theorem absent_table_is_empty_success_witness:
  "Prices (fx_env (Inr (HTMLBody (Doc [])))) fx_cli ''bitcoin'' None []
     = ((Some [], None), [fx_price_request])
   \<and> Markets (fx_env (Inr (HTMLBody (Doc [])))) fx_cli ''bitcoin'' []
     = ((Some [], None), [fx_market_request])
   \<and> snd (fst (Prices (fx_env (Inr (HTMLBody (Doc [PriceRow ''2020-01-01'' [''1,000'']]))))
       fx_cli ''bitcoin'' None [])) \<noteq> None
   \<and> snd (fst (Markets (fx_env (Inr (HTMLBody (Doc [MarketRow [''Bitfinex''] []]))))
       fx_cli ''bitcoin'' [])) \<noteq> None"
proof -
  have inst: "\<And>n.
      (html_find (fx_env (Inr (HTMLBody n))) ''tbody tr'' n = [] \<longrightarrow>
         Prices (fx_env (Inr (HTMLBody n))) fx_cli ''bitcoin'' None []
           = ((Some [], None), [fx_price_request]))
    \<and> (html_find (fx_env (Inr (HTMLBody n))) ''tbody tr'' n = [] \<longrightarrow>
         Markets (fx_env (Inr (HTMLBody n))) fx_cli ''bitcoin'' []
           = ((Some [], None), [fx_market_request]))
    \<and> (snd (fst (Prices (fx_env (Inr (HTMLBody n))) fx_cli ''bitcoin'' None [])) \<noteq> None
          \<longleftrightarrow> (\<exists>tr \<in> set (html_find (fx_env (Inr (HTMLBody n))) ''tbody tr'' n).
                 \<not> priceRowOK (fx_env (Inr (HTMLBody n))) tr))
    \<and> (snd (fst (Markets (fx_env (Inr (HTMLBody n))) fx_cli ''bitcoin'' [])) \<noteq> None
          \<longleftrightarrow> (\<exists>tr \<in> set (html_find (fx_env (Inr (HTMLBody n))) ''tbody tr'' n).
                 \<not> marketRowOK (fx_env (Inr (HTMLBody n))) tr))"
    by (rule absent_table_is_empty_success [OF fx_requests(1) fx_Do _ fx_requests(2) fx_Do])
      (simp_all add: fx_env_simps)
  from inst [of "Doc []"] inst [of "Doc [PriceRow ''2020-01-01'' [''1,000'']]"]
    inst [of "Doc [MarketRow [''Bitfinex''] []]"]
  show ?thesis
    by (simp add: fx_env_simps fx_find_def priceRowOK_def marketRowOK_def)
qed

section \<open>Failures\<close>

lemma Tickers_error_iff:
  "Tickers env cli opts w = ((r, Some e), w1) \<longleftrightarrow>
     r = None \<and>
     (http_NewRequest env ''GET'' (TickersURL cli opts) = Inl e \<and> w1 = w
      \<or> (\<exists>req. http_NewRequest env ''GET'' (TickersURL cli opts) = Inr req
           \<and> (http_Do env (httpClient cli) req w = (Inl e, w1)
               \<or> (\<exists>body. http_Do env (httpClient cli) req w = (Inr body, w1)
                    \<and> json_Decode_Tickers env body = Inl e))))"
  by (auto simp: Tickers_def split: sum.splits prod.splits)

lemma Ticker_error_iff:
  "Ticker env cli ident w = ((r, Some e), w1) \<longleftrightarrow>
     r = None \<and>
     (http_NewRequest env ''GET'' (TickerURL cli ident) = Inl e \<and> w1 = w
      \<or> (\<exists>req. http_NewRequest env ''GET'' (TickerURL cli ident) = Inr req
           \<and> (http_Do env (httpClient cli) req w = (Inl e, w1)
               \<or> (\<exists>body. http_Do env (httpClient cli) req w = (Inr body, w1)
                    \<and> (json_Decode_Tickers env body = Inl e
                        \<or> (\<exists>tickers. json_Decode_Tickers env body = Inr tickers
                             \<and> len tickers \<noteq> 1 \<and> e = UnexpectedTicker))))))"
  by (auto simp: Ticker_def split: sum.splits prod.splits option.splits list.splits)

lemma Prices_error_iff:
  "Prices env cli ident opts w = ((r, Some e), w1) \<longleftrightarrow>
     r = None \<and>
     (http_NewRequest env ''GET'' (PricesURL cli ident opts) = Inl e \<and> w1 = w
      \<or> (\<exists>req. http_NewRequest env ''GET'' (PricesURL cli ident opts) = Inr req
           \<and> (http_Do env (httpClient cli) req w = (Inl e, w1)
               \<or> (\<exists>body. http_Do env (httpClient cli) req w = (Inr body, w1)
                    \<and> goq_Decode_pricesQ env body = Inl e))))"
  by (auto simp: Prices_def split: sum.splits prod.splits)

lemma Markets_error_iff:
  "Markets env cli ident w = ((r, Some e), w1) \<longleftrightarrow>
     r = None \<and>
     (http_NewRequest env ''GET'' (MarketsURL cli ident) = Inl e \<and> w1 = w
      \<or> (\<exists>req. http_NewRequest env ''GET'' (MarketsURL cli ident) = Inr req
           \<and> (http_Do env (httpClient cli) req w = (Inl e, w1)
               \<or> (\<exists>body. http_Do env (httpClient cli) req w = (Inr body, w1)
                    \<and> goq_Decode_marketsQ env body = Inl e))))"
  by (auto simp: Markets_def split: sum.splits prod.splits)

text \<open>
  Claim C9. Each of the four operations returns an error exactly when one of its steps
  fails (building the request, the transport, the decoding, and for \<open>Ticker\<close> the
  cardinality check), the error is that step's error, and the result next to it is nil.
  The world is then the one the failing step left: untouched when the request could not be
  built, and otherwise the world after the single call of the transport, so nothing is
  tried again.
\<close>

theorem failure_returns_nil_and_first_error:
  "(Tickers env cli topts w = ((rT, Some eT), wT) \<longleftrightarrow>
     rT = None \<and>
     (http_NewRequest env ''GET'' (TickersURL cli topts) = Inl eT \<and> wT = w
      \<or> (\<exists>req. http_NewRequest env ''GET'' (TickersURL cli topts) = Inr req
           \<and> (http_Do env (httpClient cli) req w = (Inl eT, wT)
               \<or> (\<exists>body. http_Do env (httpClient cli) req w = (Inr body, wT)
                    \<and> json_Decode_Tickers env body = Inl eT)))))
   \<and> (Ticker env cli ident w = ((rS, Some eS), wS) \<longleftrightarrow>
     rS = None \<and>
     (http_NewRequest env ''GET'' (TickerURL cli ident) = Inl eS \<and> wS = w
      \<or> (\<exists>req. http_NewRequest env ''GET'' (TickerURL cli ident) = Inr req
           \<and> (http_Do env (httpClient cli) req w = (Inl eS, wS)
               \<or> (\<exists>body. http_Do env (httpClient cli) req w = (Inr body, wS)
                    \<and> (json_Decode_Tickers env body = Inl eS
                        \<or> (\<exists>tickers. json_Decode_Tickers env body = Inr tickers
                             \<and> len tickers \<noteq> 1 \<and> eS = UnexpectedTicker)))))))
   \<and> (Prices env cli ident popts w = ((rP, Some eP), wP) \<longleftrightarrow>
     rP = None \<and>
     (http_NewRequest env ''GET'' (PricesURL cli ident popts) = Inl eP \<and> wP = w
      \<or> (\<exists>req. http_NewRequest env ''GET'' (PricesURL cli ident popts) = Inr req
           \<and> (http_Do env (httpClient cli) req w = (Inl eP, wP)
               \<or> (\<exists>body. http_Do env (httpClient cli) req w = (Inr body, wP)
                    \<and> goq_Decode_pricesQ env body = Inl eP)))))
   \<and> (Markets env cli ident w = ((rM, Some eM), wM) \<longleftrightarrow>
     rM = None \<and>
     (http_NewRequest env ''GET'' (MarketsURL cli ident) = Inl eM \<and> wM = w
      \<or> (\<exists>req. http_NewRequest env ''GET'' (MarketsURL cli ident) = Inr req
           \<and> (http_Do env (httpClient cli) req w = (Inl eM, wM)
               \<or> (\<exists>body. http_Do env (httpClient cli) req w = (Inr body, wM)
                    \<and> goq_Decode_marketsQ env body = Inl eM)))))"
  using Tickers_error_iff [of env cli topts w rT eT wT] Ticker_error_iff [of env cli ident w rS eS wS]
    Prices_error_iff [of env cli ident popts w rP eP wP] Markets_error_iff [of env cli ident w rM eM wM]
  by blast

text \<open>A refused connection, the body \<open>[]\<close> of the single-ticker endpoint, and a row with
  one value cell.\<close>

theorem failure_returns_nil_and_first_error_witness:
  "Tickers (fx_env (Inl (LibError ''connection refused''))) fx_cli None []
     = ((None, Some (LibError ''connection refused'')), [fx_tickers_request])
   \<and> Ticker (fx_env (Inr (JSONBody (JArray [])))) fx_cli ''bitcoin'' []
     = ((None, Some UnexpectedTicker), [fx_ticker_request])
   \<and> Prices (fx_env (Inr (HTMLBody (Doc [PriceRow ''2020-01-01'' [''1,000'']]))))
       fx_cli ''bitcoin'' None []
     = ((None, Some GoqCannotUnmarshal), [fx_price_request])
   \<and> Markets (fx_env (Inl (LibError ''connection refused''))) fx_cli ''bitcoin'' []
     = ((None, Some (LibError ''connection refused'')), [fx_market_request])"
proof -
  have t: "Tickers (fx_env (Inl (LibError ''connection refused''))) fx_cli None []
     = ((None, Some (LibError ''connection refused'')), [fx_tickers_request])"
    using failure_returns_nil_and_first_error [where env = "fx_env (Inl (LibError ''connection refused''))"
        and cli = fx_cli and topts = None and w = "[]" and rT = None
        and eT = "LibError ''connection refused''" and wT = "[fx_tickers_request]"]
    by (simp add: fx_requests fx_env_simps)
  have s: "Ticker (fx_env (Inr (JSONBody (JArray [])))) fx_cli ''bitcoin'' []
     = ((None, Some UnexpectedTicker), [fx_ticker_request])"
    using failure_returns_nil_and_first_error [where env = "fx_env (Inr (JSONBody (JArray [])))"
        and cli = fx_cli and ident = "''bitcoin''" and w = "[]" and rS = None
        and eS = UnexpectedTicker and wS = "[fx_ticker_request]"]
    by (simp add: fx_requests json_Decode_Tickers_def fx_env_simps unmarshalTickers_def
        unmarshalSlice_def)
  have p: "Prices (fx_env (Inr (HTMLBody (Doc [PriceRow ''2020-01-01'' [''1,000'']]))))
       fx_cli ''bitcoin'' None []
     = ((None, Some GoqCannotUnmarshal), [fx_price_request])"
    using failure_returns_nil_and_first_error
        [where env = "fx_env (Inr (HTMLBody (Doc [PriceRow ''2020-01-01'' [''1,000'']])))"
        and cli = fx_cli and ident = "''bitcoin''" and popts = None and w = "[]" and rP = None
        and eP = GoqCannotUnmarshal and wP = "[fx_price_request]"]
    by (simp add: fx_requests goq_Decode_pricesQ_def fx_env_simps fx_find_def
        unmarshal_pricesQ_row_def)
  have m: "Markets (fx_env (Inl (LibError ''connection refused''))) fx_cli ''bitcoin'' []
     = ((None, Some (LibError ''connection refused'')), [fx_market_request])"
    using failure_returns_nil_and_first_error [where env = "fx_env (Inl (LibError ''connection refused''))"
        and cli = fx_cli and ident = "''bitcoin''" and w = "[]" and rM = None
        and eM = "LibError ''connection refused''" and wM = "[fx_market_request]"]
    by (simp add: fx_requests fx_env_simps)
  from t s p m show ?thesis by simp
qed

section \<open>Nil and empty results\<close>

lemma Prices_result_cases:
  "(\<exists>e w1. Prices env cli ident opts w = ((None, Some e), w1))
   \<or> (\<exists>ps w1. Prices env cli ident opts w = ((Some ps, None), w1))"
  by (simp add: Prices_def split: sum.split prod.split)

lemma Markets_result_cases:
  "(\<exists>e w1. Markets env cli ident w = ((None, Some e), w1))
   \<or> (\<exists>ms w1. Markets env cli ident w = ((Some ms, None), w1))"
  by (simp add: Markets_def split: sum.split prod.split)

lemma Prices_success_non_nil:
  "snd (fst (Prices env cli ident opts w)) = None \<Longrightarrow> fst (fst (Prices env cli ident opts w)) \<noteq> None"
  using Prices_result_cases [of env cli ident opts w] by auto

lemma Markets_success_non_nil:
  "snd (fst (Markets env cli ident w)) = None \<Longrightarrow> fst (fst (Markets env cli ident w)) \<noteq> None"
  using Markets_result_cases [of env cli ident w] by auto

lemma Tickers_array_success:
  assumes "http_NewRequest env ''GET'' (TickersURL cli opts) = Inr req"
    and "http_Do env (httpClient cli) req w = (Inr body, w')"
    and "json_scan env body = Inr (JArray xs)"
    and "snd (fst (Tickers env cli opts w)) = None"
  shows "\<exists>ts. Tickers env cli opts w = ((Some ts, None), w') \<and> length ts = length xs"
proof (cases "mapE (unmarshalPtr (json_equalFold env) tickerTags setTickerField zeroTicker) xs")
  case (Inl e)
  with assms(1,2,3) have "snd (fst (Tickers env cli opts w)) = Some e"
    by (simp add: Tickers_def json_Decode_Tickers_def unmarshalTickers_def unmarshalSlice_def)
  with assms(4) show ?thesis by simp
next
  case (Inr ts)
  then have "length ts = length xs"
    by (rule mapE_length)
  moreover from Inr assms(1,2,3) have "Tickers env cli opts w = ((Some ts, None), w')"
    by (simp add: Tickers_def json_Decode_Tickers_def unmarshalTickers_def unmarshalSlice_def)
  ultimately show ?thesis by blast
qed

lemma Tickers_empty_array:
  assumes "http_NewRequest env ''GET'' (TickersURL cli opts) = Inr req"
    and "http_Do env (httpClient cli) req w = (Inr body, w')"
    and "json_scan env body = Inr (JArray [])"
  shows "Tickers env cli opts w = ((Some [], None), w')"
  using assms
  by (simp add: Tickers_def json_Decode_Tickers_def unmarshalTickers_def unmarshalSlice_def)

text \<open>
  Claim C10 says that a successful \<open>Tickers\<close> always returns a non-nil sequence. For the
  body \<open>null\<close> the decoder sets the slice to nil and reports no error, and \<open>Tickers\<close>
  returns the nil slice.
\<close>

theorem Tickers_null_body_counterexample:
  "Tickers (fx_env (Inr (JSONBody JNull))) fx_cli None [] = ((None, None), [fx_tickers_request])"
  by (simp add: Tickers_def fx_requests json_Decode_Tickers_def fx_env_simps
      unmarshalTickers_def unmarshalSlice_def)

text \<open>
  Claim C10, amended. When the body of the ticker listing is a JSON array, a successful
  \<open>Tickers\<close> returns a non-nil sequence with one element per array element, and the empty
  array gives the empty non-nil sequence and no error. A successful \<open>Prices\<close> or \<open>Markets\<close>
  always returns a non-nil sequence.
\<close>

theorem success_non_nil:
  assumes "http_NewRequest env ''GET'' (TickersURL cli topts) = Inr req"
    and "http_Do env (httpClient cli) req w = (Inr body, w')"
    and "json_scan env body = Inr (JArray xs)"
  shows "(snd (fst (Tickers env cli topts w)) = None \<longrightarrow>
            (\<exists>ts. Tickers env cli topts w = ((Some ts, None), w') \<and> length ts = length xs))
    \<and> (xs = [] \<longrightarrow> Tickers env cli topts w = ((Some [], None), w'))
    \<and> (snd (fst (Prices env cli ident popts w)) = None \<longrightarrow>
            fst (fst (Prices env cli ident popts w)) \<noteq> None)
    \<and> (snd (fst (Markets env cli ident w)) = None \<longrightarrow>
            fst (fst (Markets env cli ident w)) \<noteq> None)"
proof -
  have "snd (fst (Tickers env cli topts w)) = None \<longrightarrow>
      (\<exists>ts. Tickers env cli topts w = ((Some ts, None), w') \<and> length ts = length xs)"
    using Tickers_array_success [OF assms] by blast
  moreover have "xs = [] \<longrightarrow> Tickers env cli topts w = ((Some [], None), w')"
    using Tickers_empty_array [OF assms(1,2)] assms(3) by blast
  moreover note Prices_success_non_nil [of env cli ident popts w]
    Markets_success_non_nil [of env cli ident w]
  ultimately show ?thesis by blast
qed

text \<open>The amended claim at the body \<open>[]\<close>, which as a document has no table row.\<close>

theorem success_non_nil_witness:
  "Tickers (fx_env (Inr (JSONBody (JArray [])))) fx_cli None []
     = ((Some [], None), [fx_tickers_request])
   \<and> fst (fst (Prices (fx_env (Inr (JSONBody (JArray [])))) fx_cli ''bitcoin'' None [])) \<noteq> None
   \<and> fst (fst (Markets (fx_env (Inr (JSONBody (JArray [])))) fx_cli ''bitcoin'' [])) \<noteq> None"
proof -
  let ?env = "fx_env (Inr (JSONBody (JArray [])))"
  have d: "http_Do ?env (httpClient fx_cli) fx_tickers_request []
      = (Inr (JSONBody (JArray [])), [fx_tickers_request])"
    by (rule fx_Do)
  have s: "json_scan ?env (JSONBody (JArray [])) = Inr (JArray [])"
    by (simp add: fx_env_simps)
  have p: "snd (fst (Prices ?env fx_cli ''bitcoin'' None [])) = None"
    by (simp add: Prices_def fx_requests goq_Decode_pricesQ_def fx_env_simps fx_find_def)
  have m: "snd (fst (Markets ?env fx_cli ''bitcoin'' [])) = None"
    by (simp add: Markets_def fx_requests goq_Decode_marketsQ_def fx_env_simps fx_find_def)
  note th = success_non_nil [OF fx_requests(3) d s, where ident = "''bitcoin''" and popts = None]
  from th have "Tickers ?env fx_cli None [] = ((Some [], None), [fx_tickers_request])"
    by blast
  moreover from th p have "fst (fst (Prices ?env fx_cli ''bitcoin'' None [])) \<noteq> None"
    by blast
  moreover from th m have "fst (fst (Markets ?env fx_cli ''bitcoin'' [])) \<noteq> None"
    by blast
  ultimately show ?thesis by blast
qed

section \<open>The round trip through JSON\<close>

text \<open>
  \<open>strconv.ParseInt\<close> reads back what \<open>strconv.Itoa\<close> writes, so the \<open>,string\<close> encoding of
  \<open>Rank\<close> is lossless; a string that is valid UTF-8 is written as it is.
\<close>

lemma digitVal_digitChar:
  assumes "d < 10"
  shows "digitVal (digitChar d) = Some d"
proof -
  from assms consider "d = 0" | "d = 1" | "d = 2" | "d = 3" | "d = 4" | "d = 5" | "d = 6"
    | "d = 7" | "d = 8" | "d = 9" by atomize_elim arith
  then show ?thesis
    by cases (simp_all add: digitVal_def digitChar_def isDigit_def)
qed

lemma isDigit_digitChar: "d < 10 \<Longrightarrow> isDigit (digitChar d)"
  using digitVal_digitChar [of d] by (simp add: digitVal_def split: if_splits)

lemma parseDigits_append:
  "parseDigits (xs @ ys) acc
     = (case parseDigits xs acc of None \<Rightarrow> None | Some a \<Rightarrow> parseDigits ys a)"
  by (induction xs arbitrary: acc) (simp_all split: option.splits)

lemma natDigits_nonempty: "natDigits n \<noteq> []"
  by (subst natDigits.simps) simp

lemma hd_natDigits: "isDigit (hd (natDigits n))"
proof (induction n rule: natDigits.induct)
  case (1 n)
  show ?case
  proof (cases "n < 10")
    case True
    then show ?thesis
      by (subst natDigits.simps) (simp add: isDigit_digitChar)
  next
    case False
    with 1 have "isDigit (hd (natDigits (n div 10)))" by simp
    with False show ?thesis
      by (subst natDigits.simps) (simp add: natDigits_nonempty)
  qed
qed

lemma parseDigits_natDigits: "parseDigits (natDigits n) 0 = Some n"
proof (induction n rule: natDigits.induct)
  case (1 n)
  show ?case
  proof (cases "n < 10")
    case True
    then show ?thesis
      by (subst natDigits.simps) (simp add: digitVal_digitChar)
  next
    case False
    with 1 have ih: "parseDigits (natDigits (n div 10)) 0 = Some (n div 10)" by simp
    have "n mod 10 < 10" by simp
    then have "digitVal (digitChar (n mod 10)) = Some (n mod 10)"
      by (rule digitVal_digitChar)
    with ih False show ?thesis
      by (subst natDigits.simps) (simp add: parseDigits_append)
  qed
qed

lemma ParseUint_natDigits: "ParseUint (natDigits n) = Some n"
  by (simp add: ParseUint_def natDigits_nonempty parseDigits_natDigits)

lemma isDigit_not_sign: "isDigit c \<Longrightarrow> c \<noteq> CHR ''-'' \<and> c \<noteq> CHR ''+'' \<and> c \<noteq> CHR ''n''"
  by (auto simp: isDigit_def)

lemma ParseInt_Itoa: "ParseInt (Itoa i) = Some i"
proof (cases "sint i < 0")
  case True
  have "- (2 ^ 63) \<le> sint i"
    using sint_ge [of i] by simp
  with True have b: "nat (- sint i) \<le> 2 ^ 63" by simp
  from True have "- word_of_int (int (nat (- sint i))) = (word_of_int (sint i) :: 64 word)"
    by simp
  then have w: "- word_of_int (int (nat (- sint i))) = i"
    by simp
  from True b w show ?thesis
    by (simp add: Itoa_def ParseInt_def ParseUint_natDigits)
next
  case False
  have "sint i < 2 ^ 63"
    using sint_lt [of i] by simp
  with False have b: "nat (sint i) < 2 ^ 63" by simp
  from False have w: "(word_of_int (int (nat (sint i))) :: 64 word) = i"
    by simp
  obtain c cs where cs: "natDigits (nat (sint i)) = c # cs"
    using natDigits_nonempty [of "nat (sint i)"] by (cases "natDigits (nat (sint i))") auto
  with hd_natDigits [of "nat (sint i)"] have "isDigit c" by simp
  then have c: "c \<noteq> CHR ''-''" "c \<noteq> CHR ''+''"
    using isDigit_not_sign by blast+
  from ParseUint_natDigits [of "nat (sint i)"] cs have "ParseUint (c # cs) = Some (nat (sint i))"
    by simp
  with False b w c cs show ?thesis
    by (simp add: Itoa_def ParseInt_def)
qed

lemma storeIntQuoted_Itoa: "storeIntQuoted (JString (Itoa i)) old = Inr i"
proof -
  have h: "Itoa i \<noteq> [] \<and> (hd (Itoa i) = CHR ''-'' \<or> isDigit (hd (Itoa i)))"
    using hd_natDigits [of "nat (sint i)"] natDigits_nonempty [of "nat (sint i)"]
    by (simp add: Itoa_def)
  then have "hd (Itoa i) \<noteq> CHR ''n''"
    using isDigit_not_sign by auto
  then have "Itoa i \<noteq> ''null''"
    by auto
  with h show ?thesis
    by (simp add: storeIntQuoted_def ParseInt_Itoa)
qed

lemma marshalString_valid: "validUTF8 s \<Longrightarrow> marshalString s = JString s"
  by (simp add: marshalString_def validUTF8_def)

lemma roundtrip_Ticker:
  assumes "utf8Ticker t"
  shows "unmarshalPtr eqf tickerTags setTickerField zeroTicker (marshalTicker t) = Inr (Some t)"
  using assms
  by (simp add: utf8Ticker_def marshalTicker_def marshalString_valid unmarshalPtr_def
      findField_def tickerTags_def setTickerField_def storeString_def storeIntQuoted_Itoa
      zeroTicker_def)

lemma roundtrip_Price:
  assumes "utf8Price p"
  shows "unmarshalPtr eqf priceTags setPriceField zeroPrice (marshalPrice p) = Inr (Some p)"
  using assms
  by (simp add: utf8Price_def marshalPrice_def marshalString_valid unmarshalPtr_def
      findField_def priceTags_def setPriceField_def storeString_def zeroPrice_def)

lemma roundtrip_Market:
  assumes "utf8Market m"
  shows "unmarshalPtr eqf marketTags setMarketField zeroMarket (marshalMarket m)
    = Inr (Some (untagged_dropped m))"
  using assms
  by (simp add: utf8Market_def marshalMarket_def marshalString_valid unmarshalPtr_def
      findField_def marketTags_def setMarketField_def storeString_def zeroMarket_def
      untagged_dropped_def)

lemma roundtrip_slice:
  assumes "\<And>x. P x \<Longrightarrow> dec (enc x) = Inr (Some (f x))" and "dec JNull = Inr None"
    and "allPtr P s"
  shows "unmarshalSlice dec (marshalSlice (marshalPtr enc) s) = Inr (mapPtr f s)"
proof (cases s)
  case None
  then show ?thesis
    by (simp add: marshalSlice_def unmarshalSlice_def mapPtr_def)
next
  case (Some xs)
  have "list_all (\<lambda>x. case x of None \<Rightarrow> True | Some y \<Rightarrow> P y) xs \<Longrightarrow>
      mapE dec (map (marshalPtr enc) xs) = Inr (map (map_option f) xs)"
  proof (induction xs)
    case Nil
    then show ?case by simp
  next
    case (Cons x xs)
    then show ?case
      by (cases x) (simp_all add: marshalPtr_def assms(1,2))
  qed
  with Some assms(3) show ?thesis
    by (simp add: marshalSlice_def unmarshalSlice_def mapPtr_def allPtr_def)
qed

lemma unmarshalPtr_null: "unmarshalPtr eqf tags setf zero JNull = Inr None"
  by (simp add: unmarshalPtr_def)

lemma mapPtr_id: "mapPtr (\<lambda>x. x) s = s"
  by (cases s) (simp_all add: mapPtr_def option.map_ident map_idI)

lemma utf8_fixtures: "utf8Ticker bitcoin" "utf8Price fx_price" "utf8Market fx_market"
  by (simp_all add: utf8Ticker_def utf8Price_def utf8Market_def bitcoin_def fx_price_def
      fx_market_def validUTF8_def toValidUTF8_def)

lemma Price_roundtrip_needs_utf8:
  "unmarshalPrices (=) (marshalPrices (Some [Some (zeroPrice\<lparr>Date := [CHR 0xFF]\<rparr>)]))
     = Inr (Some [Some (zeroPrice\<lparr>Date := [CHR 0xEF, CHR 0xBF, CHR 0xBD]\<rparr>)])"
  by (simp add: unmarshalPrices_def marshalPrices_def marshalSlice_def marshalPtr_def
      unmarshalSlice_def unmarshalPtr_def marshalPrice_def marshalString_def toValidUTF8_def
      runeError_def zeroPrice_def findField_def priceTags_def setPriceField_def storeString_def)

text \<open>
  Claim C6 says that every returned record sequence survives encoding and decoding. A
  \<open>Market\<close> that \<open>Markets\<close> returns does not: \<open>VolumeUSD24hr\<close> and \<open>PriceUSD\<close> are tagged
  \<open>json:"-"\<close>, are not written, and come back empty.
\<close>

theorem Market_roundtrip_counterexample:
  "fst (Markets (fx_env (Inr (HTMLBody fx_market_page))) fx_cli ''bitcoin'' [])
     = (Some [Some fx_market], None)
   \<and> unmarshalMarkets (=) (marshalMarkets (Some [Some fx_market]))
     = Inr (Some [Some \<lparr>Source = ''Bitfinex'', Pair_m = ''BTC/USD'', VolumeUSD24hr_m = [],
         PriceUSD_m = [], VolumePercentage = ''12.50%''\<rparr>])
   \<and> unmarshalMarkets (=) (marshalMarkets (Some [Some fx_market]))
     \<noteq> Inr (Some [Some fx_market])"
proof -
  have p: "html_parse (fx_env (Inr (HTMLBody fx_market_page))) (HTMLBody fx_market_page)
      = Inr fx_market_page"
    by (simp add: fx_env_simps)
  have ok: "\<forall>tr \<in> set (html_find (fx_env (Inr (HTMLBody fx_market_page))) ''tbody tr'' fx_market_page).
      marketRowOK (fx_env (Inr (HTMLBody fx_market_page))) tr"
    by (simp add: fx_env_simps fx_find_def marketRowOK_def fx_market_page_def)
  from Markets_rows_ok [OF fx_requests(2) fx_Do p ok]
  have a: "fst (Markets (fx_env (Inr (HTMLBody fx_market_page))) fx_cli ''bitcoin'' [])
     = (Some [Some fx_market], None)"
    by (simp add: fx_env_simps fx_find_def fx_text_def fx_market_page_def spec_market_of_def
        fx_market_def)
  have b: "unmarshalMarkets (=) (marshalMarkets (Some [Some fx_market]))
     = Inr (Some [Some \<lparr>Source = ''Bitfinex'', Pair_m = ''BTC/USD'', VolumeUSD24hr_m = [],
         PriceUSD_m = [], VolumePercentage = ''12.50%''\<rparr>])"
    using roundtrip_Market [OF utf8_fixtures(3), of "(=)"]
    by (simp add: unmarshalMarkets_def marshalMarkets_def marshalSlice_def marshalPtr_def
        unmarshalSlice_def untagged_dropped_def fx_market_def)
  from a b show ?thesis
    by (simp add: fx_market_def)
qed

text \<open>
  Claim C6, amended. For sequences whose tagged strings are valid UTF-8 (nil sequences and
  nil elements included), encoding to JSON and decoding back gives the same sequence of
  \<open>Ticker\<close> records and the same sequence of \<open>Price\<close> records; a sequence of \<open>Market\<close>
  records comes back with \<open>Source\<close>, \<open>Pair\<close> and \<open>VolumePercentage\<close> unchanged and with
  \<open>VolumeUSD24hr\<close> and \<open>PriceUSD\<close> empty. (\<open>Price_roundtrip_needs_utf8\<close> shows what
  happens to a byte that is not valid UTF-8.)
\<close>

theorem json_roundtrip:
  "(allPtr utf8Ticker ts \<longrightarrow> unmarshalTickers eqf (marshalTickers ts) = Inr ts)
   \<and> (allPtr utf8Price ps \<longrightarrow> unmarshalPrices eqf (marshalPrices ps) = Inr ps)
   \<and> (allPtr utf8Market ms \<longrightarrow>
        unmarshalMarkets eqf (marshalMarkets ms) = Inr (mapPtr untagged_dropped ms))"
proof -
  have "allPtr utf8Ticker ts \<longrightarrow> unmarshalTickers eqf (marshalTickers ts) = Inr ts"
    using roundtrip_slice [of utf8Ticker "unmarshalPtr eqf tickerTags setTickerField zeroTicker"
        marshalTicker "\<lambda>x. x" ts]
    by (simp add: roundtrip_Ticker unmarshalPtr_null mapPtr_id unmarshalTickers_def
        marshalTickers_def)
  moreover have "allPtr utf8Price ps \<longrightarrow> unmarshalPrices eqf (marshalPrices ps) = Inr ps"
    using roundtrip_slice [of utf8Price "unmarshalPtr eqf priceTags setPriceField zeroPrice"
        marshalPrice "\<lambda>x. x" ps]
    by (simp add: roundtrip_Price unmarshalPtr_null mapPtr_id unmarshalPrices_def
        marshalPrices_def)
  moreover have "allPtr utf8Market ms \<longrightarrow>
      unmarshalMarkets eqf (marshalMarkets ms) = Inr (mapPtr untagged_dropped ms)"
    using roundtrip_slice [of utf8Market "unmarshalPtr eqf marketTags setMarketField zeroMarket"
        marshalMarket untagged_dropped ms]
    by (simp add: roundtrip_Market unmarshalPtr_null unmarshalMarkets_def marshalMarkets_def)
  ultimately show ?thesis by blast
qed

text \<open>The amended claim at one sequence of each kind.\<close>

theorem json_roundtrip_witness:
  "unmarshalTickers (=) (marshalTickers (Some [Some bitcoin, None]))
     = Inr (Some [Some bitcoin, None])
   \<and> unmarshalPrices (=) (marshalPrices (Some [Some fx_price])) = Inr (Some [Some fx_price])
   \<and> unmarshalMarkets (=) (marshalMarkets (Some [Some fx_market]))
     = Inr (Some [Some (fx_market\<lparr>VolumeUSD24hr_m := [], PriceUSD_m := []\<rparr>)])"
proof -
  have "allPtr utf8Ticker (Some [Some bitcoin, None])"
    and "allPtr utf8Price (Some [Some fx_price])"
    and "allPtr utf8Market (Some [Some fx_market])"
    by (simp_all add: allPtr_def utf8_fixtures)
  with json_roundtrip [of "Some [Some bitcoin, None]" "(=)" "Some [Some fx_price]"
      "Some [Some fx_market]"]
  show ?thesis
    by (simp add: mapPtr_def untagged_dropped_def)
qed

end
